theory Spec2Isabelle
  imports Main "HOL-Library.Word"
begin

section \<open>Solidity value types and failures\<close>

text \<open>
  The contract \<^verbatim>\<open>Betflix\<close> (packages/hardhat/contracts/Betflix.sol) exists in the
  repository in two variants: the current one, which reserves an ENS subdomain (the
  trophy label) for every bet, and an earlier one without ENS.  Both are embedded here.
  Solidity's fixed-width integers are machine words; arithmetic of Solidity 0.8 is
  checked, so every addition, subtraction, multiplication, negation and power that
  leaves its type becomes the failure \<open>Panic_0x11\<close>.
\<close>

type_synonym address = "160 word"
type_synonym bytes32 = "256 word"
type_synonym uint256 = "256 word"
type_synonym int256 = "256 word"
type_synonym int64 = "64 word"
type_synonym int32 = "32 word"
type_synonym uint32 = "32 word"

text \<open>
  The custom errors of \<^verbatim>\<open>Common.sol\<close>, followed by the failures that do not come from
  a \<^verbatim>\<open>revert\<close> statement of the contract: the arithmetic panic of checked arithmetic,
  the errors of OpenZeppelin's SafeCast and Address libraries, the access check of
  Ownable, and a revert that bubbles up from a call into the Pyth oracle.
\<close>

datatype error =
    ZeroAddress
  | BetAmountTooLow
  | BetDurationInvalid
  | BetAlreadyExists
  | BetDoesNotExist
  | BetAlreadyJoined
  | BetExpired
  | BetNotExpired
  | BetAlreadyResolved
  | TransferFailed
  | PriceFeedNotFound
  | PriceStale
  | InsufficientPythFee
  | OnlyCreatorCanRefund
  | BetNotMatched
  | InvalidENSSubdomain
  | ENSSubdomainTaken
  | Panic_0x11
  | SafeCastOverflowedUintToInt
  | SafeCastOverflowedIntDowncast
  | SafeCastOverflowedIntToUint
  | InsufficientBalance
  | FailedCall
  | OwnableUnauthorizedAccount
  | OwnableInvalidOwner
  | PythReverted
  | RevertWithoutData

definition checked_add :: "uint256 \<Rightarrow> uint256 \<Rightarrow> error + uint256" where
  "checked_add a b = (if unat a + unat b < 2 ^ 256 then Inr (a + b) else Inl Panic_0x11)"

definition checked_sub :: "uint256 \<Rightarrow> uint256 \<Rightarrow> error + uint256" where
  "checked_sub a b = (if b \<le> a then Inr (a - b) else Inl Panic_0x11)"

definition checked_mul :: "uint256 \<Rightarrow> uint256 \<Rightarrow> error + uint256" where
  "checked_mul a b = (if unat a * unat b < 2 ^ 256 then Inr (a * b) else Inl Panic_0x11)"

text \<open>\<^verbatim>\<open>10 ** n\<close> with a \<^verbatim>\<open>uint32\<close> exponent is computed in \<^verbatim>\<open>uint256\<close>.\<close>

definition checked_pow10 :: "uint32 \<Rightarrow> error + uint256" where
  "checked_pow10 n =
     (if (10::nat) ^ unat n < 2 ^ 256 then Inr (word_of_nat (10 ^ unat n)) else Inl Panic_0x11)"

text \<open>Unary minus on \<^verbatim>\<open>int32\<close>: only the least value has no negation.\<close>

definition checked_neg32 :: "int32 \<Rightarrow> error + int32" where
  "checked_neg32 e = (if sint e = - (2 ^ 31) then Inl Panic_0x11 else Inr (- e))"

subsection \<open>SafeCast\<close>

text \<open>
  OpenZeppelin's SafeCast is a library outside the repository; the three conversions the
  contract uses are written from their documented behaviour: each returns the same
  number in the target type and reverts when the number does not fit.
\<close>

definition toInt256 :: "uint256 \<Rightarrow> error + int256" where
  "toInt256 v = (if unat v < 2 ^ 255 then Inr v else Inl SafeCastOverflowedUintToInt)"

definition toInt64 :: "int256 \<Rightarrow> error + int64" where
  "toInt64 v =
     (if - (2 ^ 63) \<le> sint v \<and> sint v < 2 ^ 63 then Inr (word_of_int (sint v))
      else Inl SafeCastOverflowedIntDowncast)"


text \<open>Sequencing of steps that may revert: the first failure ends the call.\<close>

definition and_then :: "error + 'a \<Rightarrow> ('a \<Rightarrow> error + 'b) \<Rightarrow> error + 'b" where
  "and_then r f = (case r of Inl e \<Rightarrow> Inl e | Inr x \<Rightarrow> f x)"

section \<open>Price conversion\<close>

text \<open>
  \<^verbatim>\<open>_convertToPythPrice(uint256 _usdPrice, int32 _expo)\<close>; \<open>- 1\<close> is
  \<^verbatim>\<open>type(uint256).max\<close>, and \<^verbatim>\<open>uint32(-_expo)\<close> keeps the bits of the negated exponent.
\<close>

definition convertToPythPrice :: "uint256 \<Rightarrow> int32 \<Rightarrow> error + int64" where
  "convertToPythPrice usdPrice expo =
     (if usdPrice = 0 then Inl PriceStale
      else if usdPrice > 100000000 then Inl PriceStale
      else if sint expo > - 2 \<or> sint expo < - 18 then Inl PriceStale
      else and_then (checked_neg32 expo) (\<lambda>negExpo.
           and_then (checked_pow10 negExpo) (\<lambda>multiplier.
           if usdPrice > (- 1) div multiplier then Inl PriceStale
           else and_then (checked_mul usdPrice multiplier) (\<lambda>pythPrice.
                and_then (toInt256 pythPrice) toInt64))))"

section \<open>Data model\<close>

text \<open>
  The struct \<^verbatim>\<open>Bet\<close>.  The earlier variant of the contract declares the first thirteen
  fields; the current one appends the two ENS fields.
\<close>

record LegacyBet =
  player1 :: address
  player2 :: address
  amount :: uint256
  targetPrice :: int64
  priceExponent :: int32
  deadline :: uint256
  joinDeadline :: uint256
  startPrice :: int64
  pythUpdateFee :: uint256
  resolved :: bool
  cancelled :: bool
  winner :: address
  priceFeedId :: bytes32

record Bet = LegacyBet +
  ensLabel :: bytes32
  ensSubdomain :: string

text \<open>\<^verbatim>\<open>PythStructs.Price\<close>, the answer of the oracle.\<close>

record Price =
  price :: int64
  conf :: "64 word"
  expo :: int32
  publishTime :: uint256

text \<open>
  The storage of the contract.  \<open>balance\<close> is \<^verbatim>\<open>address(this).balance\<close> in wei; the
  earlier variant holds the first three fields only.
\<close>

record 'b store =
  pyth :: address
  bets :: "bytes32 \<Rightarrow> 'b"
  balance :: nat

record betflix = "Bet store" +
  nameWrapper :: address
  ensDomainNode :: bytes32
  ensResolver :: address
  ensDomainName :: string
  usedSubdomains :: "bytes32 \<Rightarrow> bool"
  owner :: address

text \<open>
  What one call sees of the world around the contract: the transaction context, the
  answers of the Pyth oracle to the update data of this call (\<open>None\<close> and \<open>False\<close> stand for
  a reverting oracle call), whether an address accepts a transfer of ether, and what
  the call of \<^verbatim>\<open>setSubnodeRecord\<close> at the configured NameWrapper address does.  Calls out
  of the contract are taken not to call back into it: the four bet operations are
  \<^verbatim>\<open>nonReentrant\<close>.
\<close>

text \<open>
  What an external call with a declared return value can do, as seen by the caller: the
  callee returns data that decodes to the declared type; the callee reverts; or the
  call comes back without such data, because the address holds no code or because the
  contract there answers with something else.  \<^verbatim>\<open>configureENS\<close> stores any address, so
  all three can happen to \<^verbatim>\<open>nameWrapper.setSubnodeRecord\<close>.
\<close>

datatype call_outcome = Returned | Reverted | Undecodable

record env =
  msg_sender :: address
  msg_value :: uint256
  block_timestamp :: uint256
  block_prevrandao :: uint256
  pyth_getUpdateFee :: "uint256 option"
  pyth_updatePriceFeeds :: bool
  pyth_getPriceNoOlderThan :: "bytes32 \<Rightarrow> uint256 \<Rightarrow> Price option"
  accepts :: "address \<Rightarrow> bool"
  nameWrapper_setSubnodeRecord :: call_outcome

text \<open>
  \<^verbatim>\<open>keccak256\<close> is a primitive of the platform and is taken as a parameter:
  \<open>keccak_betId\<close> hashes the packed encoding of sender, feed, target, timestamp and
  randomness, \<open>keccak_label\<close> hashes the bytes of a subdomain.
\<close>

record hashing =
  keccak_betId :: "address \<Rightarrow> bytes32 \<Rightarrow> uint256 \<Rightarrow> uint256 \<Rightarrow> uint256 \<Rightarrow> bytes32"
  keccak_label :: "string \<Rightarrow> bytes32"

datatype event =
    BetCreated bytes32 address int64 uint256 uint256 uint256 string
  | BetJoined bytes32 address
  | BetResolved bytes32 address address int64 uint256 string
  | BetCancelled bytes32 address uint256
  | ENSConfigUpdated bytes32 address
  | LegacyBetCreated bytes32 address int64 uint256 uint256 uint256
  | LegacyBetResolved bytes32 address address int64 uint256

text \<open>
  What a successful call does besides changing storage, in order: the fee forwarded
  with \<^verbatim>\<open>pyth.updatePriceFeeds\<close>, each \<^verbatim>\<open>sendValue\<close>, the call of
  \<^verbatim>\<open>nameWrapper.setSubnodeRecord\<close> (parent node, label, new owner, resolver) with its
  outcome (\<open>True\<close> when it returned, \<open>False\<close> when its revert was caught), and the events.
\<close>

datatype effect =
    PythFeePaid uint256
  | Sent address uint256
  | SetSubnodeRecord bytes32 string address address bool
  | Emit event

definition MIN_BET :: uint256 where "MIN_BET = 100000000"
definition LEGACY_MIN_BET :: uint256 where "LEGACY_MIN_BET = 10000000000000000"
definition MIN_DURATION :: uint256 where "MIN_DURATION = 60"
definition MAX_DURATION :: uint256 where "MAX_DURATION = 3600"
definition MAX_PRICE_AGE :: uint256 where "MAX_PRICE_AGE = 60"
definition MIN_JOIN_DURATION :: uint256 where "MIN_JOIN_DURATION = 60"
definition MAX_JOIN_DURATION :: uint256 where "MAX_JOIN_DURATION = 600"

text \<open>A call into the oracle: its revert bubbles up.\<close>

definition pyth_call :: "'a option \<Rightarrow> error + 'a" where
  "pyth_call r = (case r of None \<Rightarrow> Inl PythReverted | Some x \<Rightarrow> Inr x)"

text \<open>
  \<^verbatim>\<open>Address.sendValue\<close> of OpenZeppelin (a library outside the repository, written from
  its documented behaviour): it reverts when the contract holds less than the amount
  and when the recipient rejects the transfer; otherwise the balance goes down by the
  amount.  The two errors carry the names of one release of the library; other
  releases name them differently or pass on the revert data of the recipient, so only
  the fact of the failure is meant.  The balance is threaded through a call as a natural
  number.
\<close>

definition sendValue :: "env \<Rightarrow> nat \<Rightarrow> address \<Rightarrow> uint256 \<Rightarrow> error + nat" where
  "sendValue env bal recipient amt =
     (if bal < unat amt then Inl InsufficientBalance
      else if \<not> accepts env recipient then Inl FailedCall
      else Inr (bal - unat amt))"

text \<open>The storage slot of a bet that was never written.\<close>

definition no_bet :: Bet where
  "no_bet = \<lparr> player1 = 0, player2 = 0, amount = 0, targetPrice = 0, priceExponent = 0,
      deadline = 0, joinDeadline = 0, startPrice = 0, pythUpdateFee = 0, resolved = False,
      cancelled = False, winner = 0, priceFeedId = 0, ensLabel = 0, ensSubdomain = [] \<rparr>"

text \<open>
  The state after the constructor.  Ownable makes the deployer the owner; the
  constructor rejects the zero oracle address.
\<close>

definition constructor :: "address \<Rightarrow> address \<Rightarrow> error + betflix" where
  "constructor deployer pythAddress =
     (if pythAddress = 0 then Inl ZeroAddress
      else Inr \<lparr> pyth = pythAddress, bets = (\<lambda>_. no_bet), balance = 0, nameWrapper = 0,
             ensDomainNode = 0, ensResolver = 0, ensDomainName = [],
             usedSubdomains = (\<lambda>_. False), owner = deployer \<rparr>)"

section \<open>The current contract\<close>

text \<open>
  \<^verbatim>\<open>_createBetWithENS\<close>: writes the bet record; both deadlines are checked additions.
\<close>

definition createBetWithENS ::
  "betflix \<Rightarrow> env \<Rightarrow> bytes32 \<Rightarrow> uint256 \<Rightarrow> int64 \<Rightarrow> Price \<Rightarrow> uint256 \<Rightarrow> uint256 \<Rightarrow> uint256 \<Rightarrow>
   bytes32 \<Rightarrow> string \<Rightarrow> bytes32 \<Rightarrow> error + (betflix \<times> effect list)" where
  "createBetWithENS s env betId betAmount target currentPrice duration joinDuration pythFee
     feed sub label =
     and_then (checked_add (block_timestamp env) duration) (\<lambda>dl.
     and_then (checked_add (block_timestamp env) joinDuration) (\<lambda>jdl.
     Inr (s\<lparr>bets := (bets s)(betId :=
             \<lparr> player1 = msg_sender env, player2 = 0, amount = betAmount,
               targetPrice = target, priceExponent = expo currentPrice, deadline = dl,
               joinDeadline = jdl, startPrice = price currentPrice,
               pythUpdateFee = pythFee, resolved = False, cancelled = False, winner = 0,
               priceFeedId = feed, ensLabel = label, ensSubdomain = sub \<rparr>)\<rparr>,
          [Emit (BetCreated betId (msg_sender env) target betAmount dl jdl sub)])))"

text \<open>
  \<^verbatim>\<open>createBet\<close>, payable: the value sent joins the balance, the quoted fee leaves it
  with \<^verbatim>\<open>updatePriceFeeds\<close>.  The result carries the new bet's identifier.
\<close>

definition createBet ::
  "hashing \<Rightarrow> betflix \<Rightarrow> env \<Rightarrow> bytes32 \<Rightarrow> uint256 \<Rightarrow> uint256 \<Rightarrow> uint256 \<Rightarrow> string \<Rightarrow>
   error + (bytes32 \<times> betflix \<times> effect list)" where
  "createBet H s env feed targetUsd duration joinDuration sub =
     and_then (pyth_call (pyth_getUpdateFee env)) (\<lambda>pythFee.
     and_then (checked_sub (msg_value env) pythFee) (\<lambda>betAmount.
     if betAmount < MIN_BET then Inl BetAmountTooLow
     else if duration < MIN_DURATION \<or> duration > MAX_DURATION then Inl BetDurationInvalid
     else if joinDuration < MIN_JOIN_DURATION \<or> joinDuration > MAX_JOIN_DURATION
       then Inl BetDurationInvalid
     else if joinDuration > duration then Inl BetDurationInvalid
     else and_then (checked_add betAmount pythFee) (\<lambda>required.
     if msg_value env < required then Inl InsufficientPythFee
     else if \<not> pyth_updatePriceFeeds env then Inl PythReverted
     else and_then (pyth_call (pyth_getPriceNoOlderThan env feed MAX_PRICE_AGE)) (\<lambda>currentPrice.
     if sint (price currentPrice) \<le> 0 then Inl PriceStale
     else and_then (convertToPythPrice targetUsd (expo currentPrice)) (\<lambda>targetPriceInPythFormat.
     let betId = keccak_betId H (msg_sender env) feed targetUsd (block_timestamp env)
                   (block_prevrandao env)
     in if player1 (bets s betId) \<noteq> 0 then Inl BetAlreadyExists
     else if length sub = 0 then Inl InvalidENSSubdomain
     else if length sub > 63 then Inl InvalidENSSubdomain
     else let label = keccak_label H sub
     in if usedSubdomains s label then Inl ENSSubdomainTaken
     else and_then
       (createBetWithENS
          (s\<lparr>balance := balance s + unat (msg_value env) - unat pythFee,
             usedSubdomains := (usedSubdomains s)(label := True)\<rparr>)
          env betId betAmount targetPriceInPythFormat currentPrice duration joinDuration
          pythFee feed sub label)
       (\<lambda>(s', effs). Inr (betId, s', PythFeePaid pythFee # effs)))))))"

definition joinBet :: "betflix \<Rightarrow> env \<Rightarrow> bytes32 \<Rightarrow> error + (betflix \<times> effect list)" where
  "joinBet s env betId =
     (let bet = bets s betId
      in if player1 bet = 0 then Inl BetDoesNotExist
      else if cancelled bet then Inl BetAlreadyResolved
      else if resolved bet then Inl BetAlreadyResolved
      else if player2 bet \<noteq> 0 then Inl BetAlreadyJoined
      else if block_timestamp env > joinDeadline bet then Inl BetExpired
      else if block_timestamp env \<ge> deadline bet then Inl BetExpired
      else if msg_value env \<noteq> amount bet then Inl BetAmountTooLow
      else Inr (s\<lparr>bets := (bets s)(betId := bet\<lparr>player2 := msg_sender env\<rparr>),
                  balance := balance s + unat (msg_value env)\<rparr>,
                [Emit (BetJoined betId (msg_sender env))]))"

text \<open>
  The statement \<^verbatim>\<open>try nameWrapper.setSubnodeRecord(...) returns (bytes32) {} catch {}\<close>.
  Both blocks are empty, so a call that returns and a call that reverts in the
  NameWrapper leave \<^verbatim>\<open>resolveBet\<close> running.  A \<^verbatim>\<open>catch\<close> clause catches a revert
  of the callee only: when the call comes back without data that decodes to \<^verbatim>\<open>bytes32\<close>,
  the decoding fails in \<^verbatim>\<open>resolveBet\<close> itself, which reverts without revert data.
\<close>

definition try_setSubnodeRecord ::
  "env \<Rightarrow> bytes32 \<Rightarrow> string \<Rightarrow> address \<Rightarrow> address \<Rightarrow> error + effect list" where
  "try_setSubnodeRecord env parentNode label newOwner resolver =
     (case nameWrapper_setSubnodeRecord env of
        Returned \<Rightarrow> Inr [SetSubnodeRecord parentNode label newOwner resolver True]
      | Reverted \<Rightarrow> Inr [SetSubnodeRecord parentNode label newOwner resolver False]
      | Undecodable \<Rightarrow> Inl RevertWithoutData)"

text \<open>
  \<^verbatim>\<open>resolveBet\<close>, payable.  The trophy transfer comes last, after both \<^verbatim>\<open>sendValue\<close>
  calls, and only when ENS is configured.
\<close>

definition resolveBet :: "betflix \<Rightarrow> env \<Rightarrow> bytes32 \<Rightarrow> error + (betflix \<times> effect list)" where
  "resolveBet s env betId =
     (let bet = bets s betId
      in if player1 bet = 0 then Inl BetDoesNotExist
      else if cancelled bet then Inl BetAlreadyResolved
      else if player2 bet = 0 then Inl BetNotMatched
      else if block_timestamp env < deadline bet then Inl BetNotExpired
      else if resolved bet then Inl BetAlreadyResolved
      else and_then (pyth_call (pyth_getUpdateFee env)) (\<lambda>pythFee.
      if msg_value env < pythFee then Inl InsufficientPythFee
      else if \<not> pyth_updatePriceFeeds env then Inl PythReverted
      else and_then (pyth_call (pyth_getPriceNoOlderThan env (priceFeedId bet) MAX_PRICE_AGE))
        (\<lambda>finalPrice.
      if sint (price finalPrice) \<le> 0 then Inl PriceStale
      else if expo finalPrice \<noteq> priceExponent bet then Inl PriceStale
      else let targetHit = (sint (price finalPrice) \<ge> sint (targetPrice bet));
               win = (if targetHit then player1 bet else player2 bet);
               los = (if targetHit then player2 bet else player1 bet)
      in and_then (checked_mul (amount bet) 2) (\<lambda>totalPot.
         and_then (sendValue env (balance s + unat (msg_value env) - unat pythFee) win totalPot)
           (\<lambda>bal1.
         and_then (sendValue env bal1 (msg_sender env) pythFee) (\<lambda>bal2.
         and_then (if nameWrapper s \<noteq> 0 \<and> ensDomainNode s \<noteq> 0
                   then try_setSubnodeRecord env (ensDomainNode s) (ensSubdomain bet) win
                          (ensResolver s)
                   else Inr []) (\<lambda>trophy.
         Inr (s\<lparr>bets := (bets s)(betId := bet\<lparr>resolved := True, winner := win\<rparr>),
                 balance := bal2\<rparr>,
              [PythFeePaid pythFee, Sent win totalPot, Sent (msg_sender env) pythFee] @
              trophy @
              [Emit (BetResolved betId win los (price finalPrice) totalPot
                       (ensSubdomain bet))]))))))))"

text \<open>\<^verbatim>\<open>cancelBet\<close> is not payable: the call carries no value.\<close>

definition cancelBet :: "betflix \<Rightarrow> env \<Rightarrow> bytes32 \<Rightarrow> error + (betflix \<times> effect list)" where
  "cancelBet s env betId =
     (let bet = bets s betId
      in if player1 bet = 0 then Inl BetDoesNotExist
      else if player1 bet \<noteq> msg_sender env then Inl OnlyCreatorCanRefund
      else if cancelled bet then Inl BetAlreadyResolved
      else if resolved bet then Inl BetAlreadyResolved
      else if player2 bet \<noteq> 0 then Inl BetAlreadyJoined
      else if block_timestamp env \<le> joinDeadline bet then Inl BetNotExpired
      else let refundAmount = amount bet
      in and_then (sendValue env (balance s) (msg_sender env) refundAmount) (\<lambda>bal.
         Inr (s\<lparr>bets := (bets s)(betId := bet\<lparr>cancelled := True\<rparr>),
                 balance := bal,
                 usedSubdomains := (usedSubdomains s)(ensLabel bet := False)\<rparr>,
              [Sent (msg_sender env) refundAmount,
               Emit (BetCancelled betId (msg_sender env) refundAmount)])))"

definition getBet :: "betflix \<Rightarrow> bytes32 \<Rightarrow> Bet" where
  "getBet s betId = bets s betId"


definition isSubdomainAvailable :: "hashing \<Rightarrow> betflix \<Rightarrow> string \<Rightarrow> bool" where
  "isSubdomainAvailable H s sub = (\<not> usedSubdomains s (keccak_label H sub))"

subsection \<open>Administration\<close>

definition configureENS ::
  "betflix \<Rightarrow> env \<Rightarrow> address \<Rightarrow> bytes32 \<Rightarrow> address \<Rightarrow> string \<Rightarrow> error + (betflix \<times> effect list)" where
  "configureENS s env wrapper domainNode resolver domainName =
     (if msg_sender env \<noteq> owner s then Inl OwnableUnauthorizedAccount
      else Inr (s\<lparr>nameWrapper := wrapper, ensDomainNode := domainNode,
                  ensResolver := resolver, ensDomainName := domainName\<rparr>,
                [Emit (ENSConfigUpdated domainNode resolver)]))"

definition emergencyWithdrawAll :: "betflix \<Rightarrow> env \<Rightarrow> error + (betflix \<times> effect list)" where
  "emergencyWithdrawAll s env =
     (if msg_sender env \<noteq> owner s then Inl OwnableUnauthorizedAccount
      else and_then (sendValue env (balance s) (owner s) (word_of_nat (balance s))) (\<lambda>bal.
           Inr (s\<lparr>balance := bal\<rparr>, [Sent (owner s) (word_of_nat (balance s))])))"

definition emergencyUpdatePyth :: "betflix \<Rightarrow> env \<Rightarrow> address \<Rightarrow> error + (betflix \<times> effect list)" where
  "emergencyUpdatePyth s env newPythAddress =
     (if msg_sender env \<noteq> owner s then Inl OwnableUnauthorizedAccount
      else if newPythAddress = 0 then Inl ZeroAddress
      else Inr (s\<lparr>pyth := newPythAddress\<rparr>, []))"

text \<open>
  The two entry points inherited from OpenZeppelin's Ownable (outside the repository),
  from their documented behaviour.
\<close>

definition transferOwnership :: "betflix \<Rightarrow> env \<Rightarrow> address \<Rightarrow> error + (betflix \<times> effect list)" where
  "transferOwnership s env newOwner =
     (if msg_sender env \<noteq> owner s then Inl OwnableUnauthorizedAccount
      else if newOwner = 0 then Inl OwnableInvalidOwner
      else Inr (s\<lparr>owner := newOwner\<rparr>, []))"

definition renounceOwnership :: "betflix \<Rightarrow> env \<Rightarrow> error + (betflix \<times> effect list)" where
  "renounceOwnership s env =
     (if msg_sender env \<noteq> owner s then Inl OwnableUnauthorizedAccount
      else Inr (s\<lparr>owner := 0\<rparr>, []))"

subsection \<open>Transactions and reachable states\<close>

datatype call =
    CreateBet bytes32 uint256 uint256 uint256 string
  | JoinBet bytes32
  | ResolveBet bytes32
  | CancelBet bytes32
  | ConfigureENS address bytes32 address string
  | EmergencyWithdrawAll
  | EmergencyUpdatePyth address
  | TransferOwnership address
  | RenounceOwnership

definition exec :: "hashing \<Rightarrow> betflix \<Rightarrow> env \<Rightarrow> call \<Rightarrow> error + (betflix \<times> effect list)" where
  "exec H s env c =
     (case c of
        CreateBet feed targetUsd duration joinDuration sub \<Rightarrow>
          and_then (createBet H s env feed targetUsd duration joinDuration sub)
            (\<lambda>(betId, s', effs). Inr (s', effs))
      | JoinBet betId \<Rightarrow> joinBet s env betId
      | ResolveBet betId \<Rightarrow> resolveBet s env betId
      | CancelBet betId \<Rightarrow> cancelBet s env betId
      | ConfigureENS wrapper domainNode resolver domainName \<Rightarrow>
          configureENS s env wrapper domainNode resolver domainName
      | EmergencyWithdrawAll \<Rightarrow> emergencyWithdrawAll s env
      | EmergencyUpdatePyth newPythAddress \<Rightarrow> emergencyUpdatePyth s env newPythAddress
      | TransferOwnership newOwner \<Rightarrow> transferOwnership s env newOwner
      | RenounceOwnership \<Rightarrow> renounceOwnership s env)"

text \<open>A transaction that reverts leaves the storage as it was.\<close>

definition transact :: "hashing \<Rightarrow> betflix \<Rightarrow> env \<Rightarrow> call \<Rightarrow> betflix" where
  "transact H s env c = (case exec H s env c of Inl e \<Rightarrow> s | Inr (s', effs) \<Rightarrow> s')"

inductive reachable :: "hashing \<Rightarrow> betflix \<Rightarrow> bool" for H :: hashing where
  deployed: "constructor deployer pythAddress = Inr s \<Longrightarrow> reachable H s"
| transacted: "reachable H s \<Longrightarrow> reachable H (transact H s env c)"

section \<open>The earlier variant of the contract\<close>

text \<open>
  The second \<^verbatim>\<open>Betflix.sol\<close> has no ENS and no owner, takes the target price already
  in the oracle's format, has a larger minimum stake, and differs in three statements of
  \<^verbatim>\<open>resolveBet\<close> and \<^verbatim>\<open>cancelBet\<close>.  Its bet identifier hashes an \<^verbatim>\<open>int64\<close> target.
\<close>

definition legacy_createBet ::
  "(address \<Rightarrow> bytes32 \<Rightarrow> int64 \<Rightarrow> uint256 \<Rightarrow> uint256 \<Rightarrow> bytes32) \<Rightarrow> LegacyBet store \<Rightarrow> env \<Rightarrow>
   bytes32 \<Rightarrow> int64 \<Rightarrow> uint256 \<Rightarrow> uint256 \<Rightarrow> error + (bytes32 \<times> LegacyBet store \<times> effect list)" where
  "legacy_createBet keccak s env feed target duration joinDuration =
     and_then (pyth_call (pyth_getUpdateFee env)) (\<lambda>pythFee.
     and_then (checked_sub (msg_value env) pythFee) (\<lambda>betAmount.
     if betAmount < LEGACY_MIN_BET then Inl BetAmountTooLow
     else if duration < MIN_DURATION \<or> duration > MAX_DURATION then Inl BetDurationInvalid
     else if joinDuration < MIN_JOIN_DURATION \<or> joinDuration > MAX_JOIN_DURATION
       then Inl BetDurationInvalid
     else if joinDuration > duration then Inl BetDurationInvalid
     else and_then (checked_add betAmount pythFee) (\<lambda>required.
     if msg_value env < required then Inl InsufficientPythFee
     else if \<not> pyth_updatePriceFeeds env then Inl PythReverted
     else and_then (pyth_call (pyth_getPriceNoOlderThan env feed MAX_PRICE_AGE)) (\<lambda>currentPrice.
     if sint (price currentPrice) \<le> 0 then Inl PriceStale
     else let betId = keccak (msg_sender env) feed target (block_timestamp env)
                        (block_prevrandao env)
     in if player1 (bets s betId) \<noteq> 0 then Inl BetAlreadyExists
     else and_then (checked_add (block_timestamp env) duration) (\<lambda>dl.
          and_then (checked_add (block_timestamp env) joinDuration) (\<lambda>jdl.
          Inr (betId,
               s\<lparr>bets := (bets s)(betId :=
                    \<lparr> player1 = msg_sender env, player2 = 0, amount = betAmount,
                      targetPrice = target, priceExponent = expo currentPrice,
                      deadline = dl, joinDeadline = jdl, startPrice = price currentPrice,
                      pythUpdateFee = pythFee, resolved = False, cancelled = False,
                      winner = 0, priceFeedId = feed \<rparr>),
                  balance := balance s + unat (msg_value env) - unat pythFee\<rparr>,
               [PythFeePaid pythFee,
                Emit (LegacyBetCreated betId (msg_sender env) target betAmount dl jdl)])))))))"

definition legacy_joinBet ::
  "LegacyBet store \<Rightarrow> env \<Rightarrow> bytes32 \<Rightarrow> error + (LegacyBet store \<times> effect list)" where
  "legacy_joinBet s env betId =
     (let bet = bets s betId
      in if player1 bet = 0 then Inl BetDoesNotExist
      else if cancelled bet then Inl BetAlreadyResolved
      else if resolved bet then Inl BetAlreadyResolved
      else if player2 bet \<noteq> 0 then Inl BetAlreadyJoined
      else if block_timestamp env > joinDeadline bet then Inl BetExpired
      else if block_timestamp env \<ge> deadline bet then Inl BetExpired
      else if msg_value env \<noteq> amount bet then Inl BetAmountTooLow
      else Inr (s\<lparr>bets := (bets s)(betId := bet\<lparr>player2 := msg_sender env\<rparr>),
                  balance := balance s + unat (msg_value env)\<rparr>,
                [Emit (BetJoined betId (msg_sender env))]))"

definition legacy_resolveBet ::
  "LegacyBet store \<Rightarrow> env \<Rightarrow> bytes32 \<Rightarrow> error + (LegacyBet store \<times> effect list)" where
  "legacy_resolveBet s env betId =
     (let bet = bets s betId
      in if player1 bet = 0 then Inl BetDoesNotExist
      else if cancelled bet then Inl BetAlreadyResolved
      else if player2 bet = 0 then Inl BetAlreadyJoined
      else if block_timestamp env < deadline bet then Inl BetNotExpired
      else if resolved bet then Inl BetAlreadyResolved
      else and_then (pyth_call (pyth_getUpdateFee env)) (\<lambda>pythFee.
      if msg_value env < pythFee then Inl InsufficientPythFee
      else if \<not> pyth_updatePriceFeeds env then Inl PythReverted
      else and_then (pyth_call (pyth_getPriceNoOlderThan env (priceFeedId bet) MAX_PRICE_AGE))
        (\<lambda>finalPrice.
      if sint (price finalPrice) \<le> 0 then Inl PriceStale
      else if expo finalPrice \<noteq> priceExponent bet then Inl PriceStale
      else let targetHit = (sint (price finalPrice) \<ge> sint (targetPrice bet));
               win = (if targetHit then player1 bet else player2 bet);
               los = (if targetHit then player2 bet else player1 bet)
      in and_then (checked_mul (amount bet) 2) (\<lambda>totalPot.
         and_then (checked_add totalPot (pythUpdateFee bet)) (\<lambda>payout.
         and_then (sendValue env (balance s + unat (msg_value env) - unat pythFee) win payout)
           (\<lambda>bal1.
         and_then (sendValue env bal1 (msg_sender env) pythFee) (\<lambda>bal2.
         Inr (s\<lparr>bets := (bets s)(betId := bet\<lparr>resolved := True, winner := win\<rparr>),
                 balance := bal2\<rparr>,
              [PythFeePaid pythFee, Sent win payout, Sent (msg_sender env) pythFee,
               Emit (LegacyBetResolved betId win los (price finalPrice) totalPot)]))))))))"

definition legacy_cancelBet ::
  "LegacyBet store \<Rightarrow> env \<Rightarrow> bytes32 \<Rightarrow> error + (LegacyBet store \<times> effect list)" where
  "legacy_cancelBet s env betId =
     (let bet = bets s betId
      in if player1 bet = 0 then Inl BetDoesNotExist
      else if player1 bet \<noteq> msg_sender env then Inl OnlyCreatorCanRefund
      else if cancelled bet then Inl BetAlreadyResolved
      else if resolved bet then Inl BetAlreadyResolved
      else if player2 bet \<noteq> 0 then Inl BetAlreadyJoined
      else if block_timestamp env \<le> joinDeadline bet then Inl BetNotExpired
      else and_then (checked_add (amount bet) (pythUpdateFee bet)) (\<lambda>refundAmount.
           and_then (sendValue env (balance s) (msg_sender env) refundAmount) (\<lambda>bal.
           Inr (s\<lparr>bets := (bets s)(betId := bet\<lparr>cancelled := True\<rparr>), balance := bal\<rparr>,
                [Sent (msg_sender env) refundAmount,
                 Emit (BetCancelled betId (msg_sender env) refundAmount)]))))"

section \<open>Observations on the outcome of a call\<close>

text \<open>The ether transfers (\<^verbatim>\<open>sendValue\<close>) among the effects of a call, in order.\<close>

fun transfers :: "effect list \<Rightarrow> (address \<times> uint256) list" where
  "transfers [] = []"
| "transfers (Sent a v # es) = (a, v) # transfers es"
| "transfers (PythFeePaid v # es) = transfers es"
| "transfers (SetSubnodeRecord n l a r b # es) = transfers es"
| "transfers (Emit e # es) = transfers es"

text \<open>The total of these transfers, in wei.\<close>

definition paid_out :: "effect list \<Rightarrow> nat" where
  "paid_out es = sum_list (map (\<lambda>t. unat (snd t)) (transfers es))"

definition terminal :: "'a LegacyBet_scheme \<Rightarrow> bool" where
  "terminal b = (resolved b \<or> cancelled b)"

text \<open>A sequence of transactions, each in its own context.\<close>

fun run :: "hashing \<Rightarrow> betflix \<Rightarrow> (env \<times> call) list \<Rightarrow> betflix" where
  "run H s [] = s"
| "run H s (ec # ecs) = run H (transact H s (fst ec) (snd ec)) ecs"

section \<open>Invariants of the bet store\<close>

text \<open>
  Five facts that hold in every reachable state of the current contract: the two flags
  of a bet exclude each other; a bet with a flag set has a creator; the label of an
  existing bet is the hash of its subdomain, whose length is between 1 and 63; the label
  of an existing bet that is not cancelled is reserved; and no two such bets share a
  label.
\<close>

definition flags_exclusive :: "betflix \<Rightarrow> bool" where
  "flags_exclusive s = (\<forall>i. \<not> (resolved (bets s i) \<and> cancelled (bets s i)))"

definition terminal_exists :: "betflix \<Rightarrow> bool" where
  "terminal_exists s = (\<forall>i. terminal (bets s i) \<longrightarrow> player1 (bets s i) \<noteq> 0)"

definition labels_hashed :: "hashing \<Rightarrow> betflix \<Rightarrow> bool" where
  "labels_hashed H s = (\<forall>i. player1 (bets s i) \<noteq> 0 \<longrightarrow>
     ensLabel (bets s i) = keccak_label H (ensSubdomain (bets s i)) \<and>
     0 < length (ensSubdomain (bets s i)) \<and> length (ensSubdomain (bets s i)) \<le> 63)"

definition labels_reserved :: "betflix \<Rightarrow> bool" where
  "labels_reserved s = (\<forall>i. player1 (bets s i) \<noteq> 0 \<and> \<not> cancelled (bets s i) \<longrightarrow>
     usedSubdomains s (ensLabel (bets s i)))"

definition labels_unique :: "betflix \<Rightarrow> bool" where
  "labels_unique s = (\<forall>i j. player1 (bets s i) \<noteq> 0 \<and> player1 (bets s j) \<noteq> 0 \<and>
     \<not> cancelled (bets s i) \<and> \<not> cancelled (bets s j) \<and>
     ensLabel (bets s i) = ensLabel (bets s j) \<longrightarrow> i = j)"

definition consistent :: "hashing \<Rightarrow> betflix \<Rightarrow> bool" where
  "consistent H s = (flags_exclusive s \<and> terminal_exists s \<and> labels_hashed H s \<and>
     labels_reserved s \<and> labels_unique s)"


section \<open>Concrete scenarios\<close>

text \<open>
  Three accounts, one price feed at exponent \<open>-8\<close> and a quoted update fee of one wei.
  The hash functions of the scenarios are stand-ins that keep identifiers readable: the
  bet identifier is the timestamp, the label hash is the length of the label.
\<close>

definition alice :: address where "alice = 10"
definition bob :: address where "bob = 11"
definition carol :: address where "carol = 12"

definition demo_hashing :: hashing where
  "demo_hashing = \<lparr> keccak_betId = (\<lambda>sender feed target ts rnd. ts),
                    keccak_label = (\<lambda>sub. word_of_nat (length sub)) \<rparr>"

definition demo_price :: "int64 \<Rightarrow> Price" where
  "demo_price p = \<lparr> price = p, conf = 0, expo = - 8, publishTime = 0 \<rparr>"

definition demo_env :: "address \<Rightarrow> uint256 \<Rightarrow> uint256 \<Rightarrow> int64 \<Rightarrow> env" where
  "demo_env sender val ts p =
     \<lparr> msg_sender = sender, msg_value = val, block_timestamp = ts, block_prevrandao = 0,
       pyth_getUpdateFee = Some 1, pyth_updatePriceFeeds = True,
       pyth_getPriceNoOlderThan = (\<lambda>feed age. Some (demo_price p)),
       accepts = (\<lambda>a. True), nameWrapper_setSubnodeRecord = Returned \<rparr>"

text \<open>
  A matched bet of the current contract: stake 1000000000 wei, target 50000 USD at
  exponent \<open>-8\<close>, deadline 1300, in a contract that holds both stakes.
\<close>

definition demo_bet :: Bet where
  "demo_bet = \<lparr> player1 = alice, player2 = bob, amount = 1000000000,
       targetPrice = 5000000000000, priceExponent = - 8, deadline = 1300,
       joinDeadline = 1060, startPrice = 4900000000000, pythUpdateFee = 1,
       resolved = False, cancelled = False, winner = 0, priceFeedId = 1,
       ensLabel = 5, ensSubdomain = ''alpha'' \<rparr>"

definition demo_matched :: betflix where
  "demo_matched = \<lparr> pyth = 99, bets = (\<lambda>i. no_bet)(1000 := demo_bet), balance = 2000000000,
       nameWrapper = 77, ensDomainNode = 78, ensResolver = 79, ensDomainName = ''betflix.eth'',
       usedSubdomains = (\<lambda>l. False)(5 := True), owner = carol \<rparr>"

text \<open>The same bet in the earlier variant of the contract.\<close>

definition demo_legacy_bet :: LegacyBet where
  "demo_legacy_bet = \<lparr> player1 = alice, player2 = bob, amount = 1000000000,
       targetPrice = 5000000000000, priceExponent = - 8, deadline = 1300,
       joinDeadline = 1060, startPrice = 4900000000000, pythUpdateFee = 1,
       resolved = False, cancelled = False, winner = 0, priceFeedId = 1 \<rparr>"

definition demo_legacy_none :: LegacyBet where
  "demo_legacy_none = \<lparr> player1 = 0, player2 = 0, amount = 0, targetPrice = 0,
       priceExponent = 0, deadline = 0, joinDeadline = 0, startPrice = 0, pythUpdateFee = 0,
       resolved = False, cancelled = False, winner = 0, priceFeedId = 0 \<rparr>"

definition demo_legacy_matched :: "LegacyBet store" where
  "demo_legacy_matched =
     \<lparr> pyth = 99, bets = (\<lambda>i. demo_legacy_none)(1000 := demo_legacy_bet),
       balance = 2000000001 \<rparr>"

text \<open>The bet of the current contract before anybody joined.\<close>

definition demo_open :: betflix where
  "demo_open = demo_matched\<lparr>bets := (bets demo_matched)(1000 := demo_bet\<lparr>player2 := 0\<rparr>),
                 balance := 1000000000\<rparr>"

text \<open>
  A life cycle from deployment: alice creates a bet with the label \<open>alpha\<close>; then either
  bob joins and carol resolves at the target price, or nobody joins and alice cancels.
\<close>

definition demo_deployed :: betflix where
  "demo_deployed = \<lparr> pyth = 99, bets = (\<lambda>i. no_bet), balance = 0, nameWrapper = 0,
       ensDomainNode = 0, ensResolver = 0, ensDomainName = [],
       usedSubdomains = (\<lambda>l. False), owner = carol \<rparr>"

definition demo_created :: betflix where
  "demo_created = transact demo_hashing demo_deployed
     (demo_env alice 1000000001 1000 4900000000000) (CreateBet 1 50000 300 60 ''alpha'')"

definition demo_joined :: betflix where
  "demo_joined = transact demo_hashing demo_created
     (demo_env bob 1000000000 1030 4950000000000) (JoinBet 1000)"

definition demo_resolved :: betflix where
  "demo_resolved = transact demo_hashing demo_joined
     (demo_env carol 2 1300 5000000000000) (ResolveBet 1000)"

definition demo_cancelled :: betflix where
  "demo_cancelled = transact demo_hashing demo_created
     (demo_env alice 0 1061 4950000000000) (CancelBet 1000)"


text \<open>
  Two resolutions in which the trophy transfer fails: the NameWrapper reverts; the
  configured address answers without data that decodes to \<^verbatim>\<open>bytes32\<close>.
\<close>

definition demo_trophy_fails :: env where
  "demo_trophy_fails =
     (demo_env carol 2 1300 5000000000000)\<lparr>nameWrapper_setSubnodeRecord := Reverted\<rparr>"

definition demo_trophy_undecodable :: env where
  "demo_trophy_undecodable =
     (demo_env carol 2 1300 5000000000000)\<lparr>nameWrapper_setSubnodeRecord := Undecodable\<rparr>"


section \<open>Facts about the arithmetic\<close>

lemma and_then_Inl [simp]: "and_then (Inl e) f = Inl e"
  by (simp add: and_then_def)

lemma and_then_Inr [simp]: "and_then (Inr x) f = f x"
  by (simp add: and_then_def)

lemma and_then_eq_Inr: "and_then r f = Inr y \<longleftrightarrow> (\<exists>x. r = Inr x \<and> f x = Inr y)"
  by (cases r) simp_all














section \<open>When a call succeeds\<close>

lemma pyth_call_eq_Inr: "pyth_call r = Inr x \<longleftrightarrow> r = Some x"
  by (cases r) (simp_all add: pyth_call_def)

lemma sendValue_eq_Inr:
  "sendValue env bal recipient amt = Inr bal' \<longleftrightarrow>
     unat amt \<le> bal \<and> accepts env recipient \<and> bal' = bal - unat amt"
  by (auto simp add: sendValue_def)

lemma checked_sub_eq_Inr: "checked_sub a b = Inr c \<longleftrightarrow> b \<le> a \<and> c = a - b"
  by (auto simp add: checked_sub_def)

lemma checked_add_eq_Inr:
  "checked_add a b = Inr c \<longleftrightarrow> unat a + unat b < 2 ^ 256 \<and> c = a + b"
  by (auto simp add: checked_add_def)

lemma checked_mul_eq_Inr:
  "checked_mul a b = Inr c \<longleftrightarrow> unat a * unat b < 2 ^ 256 \<and> c = a * b"
  by (auto simp add: checked_mul_def)

lemma createBet_InrD:
  assumes "createBet H s env feed targetUsd duration joinDuration sub = Inr (betId, s', effs)"
  shows "\<exists>pythFee cp target dl jdl.
    pyth_getUpdateFee env = Some pythFee \<and> pythFee \<le> msg_value env \<and>
    MIN_BET \<le> msg_value env - pythFee \<and>
    MIN_DURATION \<le> duration \<and> duration \<le> MAX_DURATION \<and>
    MIN_JOIN_DURATION \<le> joinDuration \<and> joinDuration \<le> MAX_JOIN_DURATION \<and>
    joinDuration \<le> duration \<and> pyth_updatePriceFeeds env \<and>
    pyth_getPriceNoOlderThan env feed MAX_PRICE_AGE = Some cp \<and> 0 < sint (price cp) \<and>
    convertToPythPrice targetUsd (expo cp) = Inr target \<and>
    betId = keccak_betId H (msg_sender env) feed targetUsd (block_timestamp env)
              (block_prevrandao env) \<and>
    player1 (bets s betId) = 0 \<and> 0 < length sub \<and> length sub \<le> 63 \<and>
    \<not> usedSubdomains s (keccak_label H sub) \<and>
    checked_add (block_timestamp env) duration = Inr dl \<and>
    checked_add (block_timestamp env) joinDuration = Inr jdl \<and>
    s' = s\<lparr>bets := (bets s)(betId :=
             \<lparr> player1 = msg_sender env, player2 = 0, amount = msg_value env - pythFee,
               targetPrice = target, priceExponent = expo cp, deadline = dl,
               joinDeadline = jdl, startPrice = price cp,
               pythUpdateFee = pythFee, resolved = False, cancelled = False, winner = 0,
               priceFeedId = feed, ensLabel = keccak_label H sub, ensSubdomain = sub \<rparr>),
           balance := balance s + unat (msg_value env) - unat pythFee,
           usedSubdomains := (usedSubdomains s)(keccak_label H sub := True)\<rparr> \<and>
    effs = [PythFeePaid pythFee,
            Emit (BetCreated betId (msg_sender env) target (msg_value env - pythFee) dl jdl sub)]"
  using assms
  unfolding createBet_def createBetWithENS_def Let_def
  by (auto simp add: and_then_eq_Inr pyth_call_eq_Inr checked_sub_eq_Inr not_less not_le
      split: if_splits)

lemma joinBet_InrD:
  assumes "joinBet s env betId = Inr (s', effs)"
  shows "player1 (bets s betId) \<noteq> 0 \<and> \<not> cancelled (bets s betId) \<and>
    \<not> resolved (bets s betId) \<and> player2 (bets s betId) = 0 \<and>
    block_timestamp env \<le> joinDeadline (bets s betId) \<and>
    block_timestamp env < deadline (bets s betId) \<and> msg_value env = amount (bets s betId) \<and>
    s' = s\<lparr>bets := (bets s)(betId := (bets s betId)\<lparr>player2 := msg_sender env\<rparr>),
           balance := balance s + unat (msg_value env)\<rparr> \<and>
    effs = [Emit (BetJoined betId (msg_sender env))]"
  using assms
  unfolding joinBet_def Let_def
  by (auto simp add: not_less not_le split: if_splits)

lemma cancelBet_InrD:
  assumes "cancelBet s env betId = Inr (s', effs)"
  shows "player1 (bets s betId) \<noteq> 0 \<and> player1 (bets s betId) = msg_sender env \<and>
    \<not> cancelled (bets s betId) \<and> \<not> resolved (bets s betId) \<and>
    player2 (bets s betId) = 0 \<and> joinDeadline (bets s betId) < block_timestamp env \<and>
    unat (amount (bets s betId)) \<le> balance s \<and> accepts env (msg_sender env) \<and>
    s' = s\<lparr>bets := (bets s)(betId := (bets s betId)\<lparr>cancelled := True\<rparr>),
           balance := balance s - unat (amount (bets s betId)),
           usedSubdomains := (usedSubdomains s)(ensLabel (bets s betId) := False)\<rparr> \<and>
    effs = [Sent (msg_sender env) (amount (bets s betId)),
            Emit (BetCancelled betId (msg_sender env) (amount (bets s betId)))]"
  using assms
  unfolding cancelBet_def Let_def
  by (auto simp add: and_then_eq_Inr sendValue_eq_Inr not_less not_le split: if_splits)

lemma try_setSubnodeRecord_eq_Inr:
  "try_setSubnodeRecord env parentNode label newOwner resolver = Inr es \<longleftrightarrow>
     nameWrapper_setSubnodeRecord env \<noteq> Undecodable \<and>
     es = [SetSubnodeRecord parentNode label newOwner resolver
             (nameWrapper_setSubnodeRecord env = Returned)]"
  by (cases "nameWrapper_setSubnodeRecord env") (auto simp add: try_setSubnodeRecord_def)

lemma try_setSubnodeRecord_ok:
  "nameWrapper_setSubnodeRecord env \<noteq> Undecodable \<Longrightarrow>
   try_setSubnodeRecord env parentNode label newOwner resolver =
     Inr [SetSubnodeRecord parentNode label newOwner resolver
            (nameWrapper_setSubnodeRecord env = Returned)]"
  by (simp add: try_setSubnodeRecord_eq_Inr)

lemma resolveBet_InrD:
  assumes "resolveBet s env betId = Inr (s', effs)"
  shows "\<exists>pythFee fp totalPot w.
    player1 (bets s betId) \<noteq> 0 \<and> \<not> cancelled (bets s betId) \<and> player2 (bets s betId) \<noteq> 0 \<and>
    deadline (bets s betId) \<le> block_timestamp env \<and> \<not> resolved (bets s betId) \<and>
    pyth_getUpdateFee env = Some pythFee \<and> pythFee \<le> msg_value env \<and>
    pyth_updatePriceFeeds env \<and>
    pyth_getPriceNoOlderThan env (priceFeedId (bets s betId)) MAX_PRICE_AGE = Some fp \<and>
    0 < sint (price fp) \<and> expo fp = priceExponent (bets s betId) \<and>
    w = (if sint (targetPrice (bets s betId)) \<le> sint (price fp)
         then player1 (bets s betId) else player2 (bets s betId)) \<and>
    checked_mul (amount (bets s betId)) 2 = Inr totalPot \<and>
    unat totalPot \<le> balance s + unat (msg_value env) - unat pythFee \<and> accepts env w \<and>
    unat pythFee \<le> balance s + unat (msg_value env) - unat pythFee - unat totalPot \<and>
    accepts env (msg_sender env) \<and>
    s' = s\<lparr>bets := (bets s)(betId := (bets s betId)\<lparr>resolved := True, winner := w\<rparr>),
           balance := balance s + unat (msg_value env) - unat pythFee - unat totalPot
                        - unat pythFee\<rparr> \<and>
    effs = [PythFeePaid pythFee, Sent w totalPot, Sent (msg_sender env) pythFee] @
           (if nameWrapper s \<noteq> 0 \<and> ensDomainNode s \<noteq> 0
            then [SetSubnodeRecord (ensDomainNode s) (ensSubdomain (bets s betId)) w
                    (ensResolver s) (nameWrapper_setSubnodeRecord env = Returned)]
            else []) @
           [Emit (BetResolved betId w
                    (if sint (targetPrice (bets s betId)) \<le> sint (price fp)
                     then player2 (bets s betId) else player1 (bets s betId))
                    (price fp) totalPot (ensSubdomain (bets s betId)))]"
  using assms
  unfolding resolveBet_def Let_def
  by (auto simp add: and_then_eq_Inr pyth_call_eq_Inr sendValue_eq_Inr
      try_setSubnodeRecord_eq_Inr not_less not_le split: if_splits)

lemma resolveBet_Inr_answered:
  assumes "resolveBet s env betId = Inr (s', effs)"
    and "nameWrapper s \<noteq> 0" "ensDomainNode s \<noteq> 0"
  shows "nameWrapper_setSubnodeRecord env \<noteq> Undecodable"
  using assms
  unfolding resolveBet_def Let_def
  by (auto simp add: and_then_eq_Inr try_setSubnodeRecord_eq_Inr split: if_splits)

lemma legacy_resolveBet_InrD:
  assumes "legacy_resolveBet s env betId = Inr (s', effs)"
  shows "\<exists>pythFee fp totalPot payout w.
    player1 (bets s betId) \<noteq> 0 \<and> \<not> cancelled (bets s betId) \<and> player2 (bets s betId) \<noteq> 0 \<and>
    deadline (bets s betId) \<le> block_timestamp env \<and> \<not> resolved (bets s betId) \<and>
    pyth_getUpdateFee env = Some pythFee \<and> pythFee \<le> msg_value env \<and>
    pyth_updatePriceFeeds env \<and>
    pyth_getPriceNoOlderThan env (priceFeedId (bets s betId)) MAX_PRICE_AGE = Some fp \<and>
    0 < sint (price fp) \<and> expo fp = priceExponent (bets s betId) \<and>
    w = (if sint (targetPrice (bets s betId)) \<le> sint (price fp)
         then player1 (bets s betId) else player2 (bets s betId)) \<and>
    checked_mul (amount (bets s betId)) 2 = Inr totalPot \<and>
    checked_add totalPot (pythUpdateFee (bets s betId)) = Inr payout \<and>
    unat payout \<le> balance s + unat (msg_value env) - unat pythFee \<and> accepts env w \<and>
    unat pythFee \<le> balance s + unat (msg_value env) - unat pythFee - unat payout \<and>
    accepts env (msg_sender env) \<and>
    s' = s\<lparr>bets := (bets s)(betId := (bets s betId)\<lparr>resolved := True, winner := w\<rparr>),
           balance := balance s + unat (msg_value env) - unat pythFee - unat payout
                        - unat pythFee\<rparr> \<and>
    effs = [PythFeePaid pythFee, Sent w payout, Sent (msg_sender env) pythFee,
            Emit (LegacyBetResolved betId w
                    (if sint (targetPrice (bets s betId)) \<le> sint (price fp)
                     then player2 (bets s betId) else player1 (bets s betId))
                    (price fp) totalPot)]"
  using assms
  unfolding legacy_resolveBet_def Let_def
  by (auto simp add: and_then_eq_Inr pyth_call_eq_Inr sendValue_eq_Inr not_less not_le
      split: if_splits)

lemma legacy_cancelBet_InrD:
  assumes "legacy_cancelBet s env betId = Inr (s', effs)"
  shows "\<exists>refundAmount.
    player1 (bets s betId) \<noteq> 0 \<and> player1 (bets s betId) = msg_sender env \<and>
    \<not> cancelled (bets s betId) \<and> \<not> resolved (bets s betId) \<and>
    player2 (bets s betId) = 0 \<and> joinDeadline (bets s betId) < block_timestamp env \<and>
    checked_add (amount (bets s betId)) (pythUpdateFee (bets s betId)) = Inr refundAmount \<and>
    unat refundAmount \<le> balance s \<and> accepts env (msg_sender env) \<and>
    s' = s\<lparr>bets := (bets s)(betId := (bets s betId)\<lparr>cancelled := True\<rparr>),
           balance := balance s - unat refundAmount\<rparr> \<and>
    effs = [Sent (msg_sender env) refundAmount,
            Emit (BetCancelled betId (msg_sender env) refundAmount)]"
  using assms
  unfolding legacy_cancelBet_def Let_def
  by (auto simp add: and_then_eq_Inr sendValue_eq_Inr not_less not_le split: if_splits)

lemma sendValue_ok:
  "unat amt \<le> bal \<Longrightarrow> accepts env recipient \<Longrightarrow>
   sendValue env bal recipient amt = Inr (bal - unat amt)"
  by (simp add: sendValue_def)

lemma resolveBet_InrI:
  assumes "player1 (bets s betId) \<noteq> 0" "\<not> cancelled (bets s betId)"
    "player2 (bets s betId) \<noteq> 0" "deadline (bets s betId) \<le> block_timestamp env"
    "\<not> resolved (bets s betId)" "pyth_getUpdateFee env = Some pythFee"
    "pythFee \<le> msg_value env" "pyth_updatePriceFeeds env"
    "pyth_getPriceNoOlderThan env (priceFeedId (bets s betId)) MAX_PRICE_AGE = Some fp"
    "0 < sint (price fp)" "expo fp = priceExponent (bets s betId)"
    "w = (if sint (targetPrice (bets s betId)) \<le> sint (price fp)
         then player1 (bets s betId) else player2 (bets s betId))"
    "checked_mul (amount (bets s betId)) 2 = Inr totalPot"
    "unat totalPot \<le> balance s + unat (msg_value env) - unat pythFee" "accepts env w"
    "unat pythFee \<le> balance s + unat (msg_value env) - unat pythFee - unat totalPot"
    "accepts env (msg_sender env)"
    "nameWrapper s \<noteq> 0 \<and> ensDomainNode s \<noteq> 0 \<longrightarrow>
       nameWrapper_setSubnodeRecord env \<noteq> Undecodable"
  shows "resolveBet s env betId =
     Inr (s\<lparr>bets := (bets s)(betId := (bets s betId)\<lparr>resolved := True, winner := w\<rparr>),
           balance := balance s + unat (msg_value env) - unat pythFee - unat totalPot
                        - unat pythFee\<rparr>,
          [PythFeePaid pythFee, Sent w totalPot, Sent (msg_sender env) pythFee] @
           (if nameWrapper s \<noteq> 0 \<and> ensDomainNode s \<noteq> 0
            then [SetSubnodeRecord (ensDomainNode s) (ensSubdomain (bets s betId)) w
                    (ensResolver s) (nameWrapper_setSubnodeRecord env = Returned)]
            else []) @
           [Emit (BetResolved betId w
                    (if sint (targetPrice (bets s betId)) \<le> sint (price fp)
                     then player2 (bets s betId) else player1 (bets s betId))
                    (price fp) totalPot (ensSubdomain (bets s betId)))])"
proof -
  have fee: "\<not> msg_value env < pythFee" using assms(7) by (simp add: not_less)
  have dl: "\<not> block_timestamp env < deadline (bets s betId)"
    using assms(4) by (simp add: not_less)
  have pr: "\<not> sint (price fp) \<le> 0" using assms(10) by (simp add: not_le)
  show ?thesis
    unfolding resolveBet_def Let_def
    using assms(14-18)
    by (simp add: assms(1,2,3,5,6,8,9,11,13) dl fee pr pyth_call_def
        sendValue_ok try_setSubnodeRecord_ok flip: assms(12))
qed

lemma resolveBet_payout_rejected:
  assumes "player1 (bets s betId) \<noteq> 0" "\<not> cancelled (bets s betId)"
    "player2 (bets s betId) \<noteq> 0" "deadline (bets s betId) \<le> block_timestamp env"
    "\<not> resolved (bets s betId)" "pyth_getUpdateFee env = Some pythFee"
    "pythFee \<le> msg_value env" "pyth_updatePriceFeeds env"
    "pyth_getPriceNoOlderThan env (priceFeedId (bets s betId)) MAX_PRICE_AGE = Some fp"
    "0 < sint (price fp)" "expo fp = priceExponent (bets s betId)"
    "w = (if sint (targetPrice (bets s betId)) \<le> sint (price fp)
         then player1 (bets s betId) else player2 (bets s betId))"
    "checked_mul (amount (bets s betId)) 2 = Inr totalPot"
    "unat totalPot \<le> balance s + unat (msg_value env) - unat pythFee" "\<not> accepts env w"
  shows "resolveBet s env betId = Inl FailedCall"
proof -
  have fee: "\<not> msg_value env < pythFee" using assms(7) by (simp add: not_less)
  have dl: "\<not> block_timestamp env < deadline (bets s betId)"
    using assms(4) by (simp add: not_less)
  have pr: "\<not> sint (price fp) \<le> 0" using assms(10) by (simp add: not_le)
  have sv: "sendValue env (balance s + unat (msg_value env) - unat pythFee) w totalPot =
              Inl FailedCall"
    using assms(14,15) by (simp add: sendValue_def not_less)
  show ?thesis
    unfolding resolveBet_def Let_def
    by (simp add: assms(1,2,3,5,6,8,9,11,13) dl fee pr pyth_call_def sv flip: assms(12))
qed

lemma unat_double:
  assumes "checked_mul a 2 = Inr p"
  shows "p = 2 * a \<and> unat p = 2 * unat a"
proof -
  from assms have lt: "unat a * unat (2::uint256) < 2 ^ LENGTH(256)" and p: "p = a * 2"
    by (simp_all add: checked_mul_eq_Inr)
  from lt have "unat (a * 2) = unat a * unat (2::uint256)"
    by (simp only: unat_mult_lem [THEN iffD1])
  then show ?thesis by (simp add: p mult.commute)
qed

lemma unat_checked_add:
  assumes "checked_add a b = Inr c"
  shows "c = a + b \<and> unat c = unat a + unat b"
proof -
  from assms have lt: "unat a + unat b < 2 ^ LENGTH(256)" and c: "c = a + b"
    by (simp_all add: checked_add_eq_Inr)
  from lt have "unat (a + b) = unat a + unat b"
    by (simp only: unat_add_lem [THEN iffD1])
  then show ?thesis by (simp add: c)
qed

lemma resolveBet_transfers:
  assumes "resolveBet s env betId = Inr (s', effs)"
  shows "\<exists>pythFee. pyth_getUpdateFee env = Some pythFee \<and> pythFee \<le> msg_value env \<and>
     transfers effs = [(winner (bets s' betId), 2 * amount (bets s betId)),
                       (msg_sender env, pythFee)] \<and>
     unat (2 * amount (bets s betId)) = 2 * unat (amount (bets s betId))"
  using resolveBet_InrD [OF assms] by (clarsimp dest!: unat_double)

lemma legacy_resolveBet_transfers:
  assumes "legacy_resolveBet s env betId = Inr (s', effs)"
  shows "\<exists>pythFee. pyth_getUpdateFee env = Some pythFee \<and> pythFee \<le> msg_value env \<and>
     transfers effs = [(winner (bets s' betId),
                        2 * amount (bets s betId) + pythUpdateFee (bets s betId)),
                       (msg_sender env, pythFee)] \<and>
     unat (2 * amount (bets s betId) + pythUpdateFee (bets s betId)) =
       2 * unat (amount (bets s betId)) + unat (pythUpdateFee (bets s betId))"
  using legacy_resolveBet_InrD [OF assms]
  by (clarsimp dest!: unat_double unat_checked_add)

lemma cancelBet_transfers:
  assumes "cancelBet s env betId = Inr (s', effs)"
  shows "transfers effs = [(player1 (bets s betId), amount (bets s betId))]"
  using cancelBet_InrD [OF assms] by clarsimp

lemma legacy_cancelBet_transfers:
  assumes "legacy_cancelBet s env betId = Inr (s', effs)"
  shows "transfers effs =
           [(player1 (bets s betId), amount (bets s betId) + pythUpdateFee (bets s betId))] \<and>
         unat (amount (bets s betId) + pythUpdateFee (bets s betId)) =
           unat (amount (bets s betId)) + unat (pythUpdateFee (bets s betId))"
  using legacy_cancelBet_InrD [OF assms] by (clarsimp dest!: unat_checked_add)

lemma convert_not_InsufficientPythFee:
  "convertToPythPrice usd e \<noteq> Inl InsufficientPythFee"
  by (simp add: convertToPythPrice_def and_then_def checked_neg32_def checked_pow10_def
      checked_mul_def toInt256_def toInt64_def split: sum.splits)

lemma checked_sub_add:
  assumes "checked_sub v fee = Inr b"
  shows "checked_add b fee = Inr v"
proof -
  from assms have le: "fee \<le> v" and b: "b = v - fee" by (simp_all add: checked_sub_eq_Inr)
  have "unat (v - fee) = unat v - unat fee" using le by (rule unat_sub)
  moreover have "unat fee \<le> unat v" using le by (simp add: word_le_nat_alt)
  moreover have "unat v < 2 ^ 256" using unsigned_less [of v, where 'a = nat] by simp
  ultimately have "unat (v - fee) + unat fee < 2 ^ 256" by simp
  then show ?thesis by (simp add: checked_add_def b)
qed

lemma createBet_not_InsufficientPythFee:
  "createBet H s env feed targetUsd duration joinDuration sub \<noteq> Inl InsufficientPythFee"
proof
  assume a: "createBet H s env feed targetUsd duration joinDuration sub = Inl InsufficientPythFee"
  show False
  proof (cases "pyth_getUpdateFee env")
    case None
    with a show False by (simp add: createBet_def pyth_call_def)
  next
    case (Some fee)
    show False
    proof (cases "checked_sub (msg_value env) fee")
      case (Inl e)
      then have "e = Panic_0x11" by (simp add: checked_sub_def split: if_splits)
      with a Some Inl show False by (simp add: createBet_def pyth_call_def)
    next
      case (Inr b)
      from checked_sub_add [OF Inr] have add: "checked_add b fee = Inr (msg_value env)" .
      from a Some Inr add show False
        using convert_not_InsufficientPythFee
        by (auto simp add: createBet_def pyth_call_def createBetWithENS_def Let_def
            and_then_def checked_add_def split: if_splits option.splits sum.splits)
    qed
  qed
qed

lemma legacy_createBet_not_InsufficientPythFee:
  "legacy_createBet K ls env feed target duration joinDuration \<noteq> Inl InsufficientPythFee"
proof
  assume a: "legacy_createBet K ls env feed target duration joinDuration = Inl InsufficientPythFee"
  show False
  proof (cases "pyth_getUpdateFee env")
    case None
    with a show False by (simp add: legacy_createBet_def pyth_call_def)
  next
    case (Some fee)
    show False
    proof (cases "checked_sub (msg_value env) fee")
      case (Inl e)
      then have "e = Panic_0x11" by (simp add: checked_sub_def split: if_splits)
      with a Some Inl show False by (simp add: legacy_createBet_def pyth_call_def)
    next
      case (Inr b)
      from checked_sub_add [OF Inr] have add: "checked_add b fee = Inr (msg_value env)" .
      from a Some Inr add show False
        by (auto simp add: legacy_createBet_def pyth_call_def Let_def
            and_then_def checked_add_def split: if_splits option.splits sum.splits)
    qed
  qed
qed

section \<open>Creation: success and the label checks\<close>

lemma createBet_InrI:
  assumes "pyth_getUpdateFee env = Some pythFee" "pythFee \<le> msg_value env"
    "MIN_BET \<le> msg_value env - pythFee"
    "MIN_DURATION \<le> duration" "duration \<le> MAX_DURATION"
    "MIN_JOIN_DURATION \<le> joinDuration" "joinDuration \<le> MAX_JOIN_DURATION"
    "joinDuration \<le> duration" "pyth_updatePriceFeeds env"
    "pyth_getPriceNoOlderThan env feed MAX_PRICE_AGE = Some cp" "0 < sint (price cp)"
    "convertToPythPrice targetUsd (expo cp) = Inr target"
    "betId = keccak_betId H (msg_sender env) feed targetUsd (block_timestamp env)
              (block_prevrandao env)"
    "player1 (bets s betId) = 0" "0 < length sub" "length sub \<le> 63"
    "\<not> usedSubdomains s (keccak_label H sub)"
    "checked_add (block_timestamp env) duration = Inr dl"
    "checked_add (block_timestamp env) joinDuration = Inr jdl"
  shows "\<exists>s' effs. createBet H s env feed targetUsd duration joinDuration sub =
           Inr (betId, s', effs)"
proof -
  have sub: "checked_sub (msg_value env) pythFee = Inr (msg_value env - pythFee)"
    using assms(2) by (simp add: checked_sub_def)
  have add: "checked_add (msg_value env - pythFee) pythFee = Inr (msg_value env)"
    using sub by (rule checked_sub_add)
  have n: "\<not> msg_value env - pythFee < MIN_BET" "\<not> duration < MIN_DURATION"
    "\<not> duration > MAX_DURATION" "\<not> joinDuration < MIN_JOIN_DURATION"
    "\<not> joinDuration > MAX_JOIN_DURATION" "\<not> joinDuration > duration"
    "\<not> sint (price cp) \<le> 0" "\<not> length sub > 63" "sub \<noteq> []"
    using assms(3-8,11,15,16) by (simp_all add: not_less not_le)
  show ?thesis
    unfolding createBet_def createBetWithENS_def Let_def
    by (simp add: assms(1,9,10,12,14,17,18,19) sub add n pyth_call_def flip: assms(13))
qed

lemma createBet_label_taken:
  assumes "pyth_getUpdateFee env = Some pythFee" "pythFee \<le> msg_value env"
    "MIN_BET \<le> msg_value env - pythFee"
    "MIN_DURATION \<le> duration" "duration \<le> MAX_DURATION"
    "MIN_JOIN_DURATION \<le> joinDuration" "joinDuration \<le> MAX_JOIN_DURATION"
    "joinDuration \<le> duration" "pyth_updatePriceFeeds env"
    "pyth_getPriceNoOlderThan env feed MAX_PRICE_AGE = Some cp" "0 < sint (price cp)"
    "convertToPythPrice targetUsd (expo cp) = Inr target"
    "betId = keccak_betId H (msg_sender env) feed targetUsd (block_timestamp env)
              (block_prevrandao env)"
    "player1 (bets s betId) = 0" "0 < length sub" "length sub \<le> 63"
    "usedSubdomains s (keccak_label H sub)"
  shows "createBet H s env feed targetUsd duration joinDuration sub = Inl ENSSubdomainTaken"
proof -
  have sub: "checked_sub (msg_value env) pythFee = Inr (msg_value env - pythFee)"
    using assms(2) by (simp add: checked_sub_def)
  have add: "checked_add (msg_value env - pythFee) pythFee = Inr (msg_value env)"
    using sub by (rule checked_sub_add)
  have n: "\<not> msg_value env - pythFee < MIN_BET" "\<not> duration < MIN_DURATION"
    "\<not> duration > MAX_DURATION" "\<not> joinDuration < MIN_JOIN_DURATION"
    "\<not> joinDuration > MAX_JOIN_DURATION" "\<not> joinDuration > duration"
    "\<not> sint (price cp) \<le> 0" "\<not> length sub > 63" "sub \<noteq> []"
    using assms(3-8,11,15,16) by (simp_all add: not_less not_le)
  show ?thesis
    unfolding createBet_def Let_def
    by (simp add: assms(1,9,10,12,14,17) sub add n pyth_call_def flip: assms(13))
qed

lemma convert_errors:
  assumes "convertToPythPrice usd e = Inl err"
  shows "err = PriceStale \<or> err = Panic_0x11 \<or> err = SafeCastOverflowedUintToInt \<or>
         err = SafeCastOverflowedIntDowncast"
  using assms
  by (auto simp add: convertToPythPrice_def and_then_def checked_neg32_def checked_pow10_def
      checked_mul_def toInt256_def toInt64_def split: sum.splits if_splits)

lemma createBet_label_errors:
  assumes "createBet H s env feed targetUsd duration joinDuration sub = Inl err"
  shows "(err = ENSSubdomainTaken \<longrightarrow> usedSubdomains s (keccak_label H sub)) \<and>
         (err = InvalidENSSubdomain \<longrightarrow> length sub = 0 \<or> 63 < length sub)"
proof (cases "pyth_getUpdateFee env")
  case None
  with assms show ?thesis by (auto simp add: createBet_def pyth_call_def)
next
  case (Some fee)
  show ?thesis
  proof (cases "checked_sub (msg_value env) fee")
    case (Inl e)
    then have "e = Panic_0x11" by (simp add: checked_sub_def split: if_splits)
    with assms Some Inl show ?thesis by (auto simp add: createBet_def pyth_call_def)
  next
    case (Inr b)
    from checked_sub_add [OF Inr] have add: "checked_add b fee = Inr (msg_value env)" .
    from assms Some Inr add show ?thesis
      by (auto simp add: createBet_def pyth_call_def createBetWithENS_def Let_def
          and_then_def checked_add_def split: if_splits option.splits sum.splits
          dest: convert_errors)
  qed
qed


section \<open>The invariants hold in every reachable state\<close>

lemmas inv_defs = flags_exclusive_def terminal_exists_def labels_hashed_def labels_reserved_def
  labels_unique_def

lemma constructor_consistent:
  assumes "constructor deployer pythAddress = Inr s"
  shows "consistent H s"
proof -
  from assms have b: "bets s = (\<lambda>i. no_bet)"
    by (auto simp add: constructor_def split: if_splits)
  show ?thesis
    by (simp add: consistent_def inv_defs b no_bet_def terminal_def)
qed

lemma consistent_frame:
  assumes c: "consistent H s"
    and p: "\<And>i. player1 (bets s' i) = player1 (bets s i)"
    and r: "\<And>i. resolved (bets s' i) = resolved (bets s i)"
    and x: "\<And>i. cancelled (bets s' i) = cancelled (bets s i)"
    and l: "\<And>i. ensLabel (bets s' i) = ensLabel (bets s i)"
    and d: "\<And>i. ensSubdomain (bets s' i) = ensSubdomain (bets s i)"
    and u: "usedSubdomains s' = usedSubdomains s"
  shows "consistent H s'"
proof -
  have "flags_exclusive s' = flags_exclusive s"
    unfolding flags_exclusive_def by (simp only: r x)
  moreover have "terminal_exists s' = terminal_exists s"
    unfolding terminal_exists_def terminal_def by (simp only: p r x)
  moreover have "labels_hashed H s' = labels_hashed H s"
    unfolding labels_hashed_def by (simp only: p l d)
  moreover have "labels_reserved s' = labels_reserved s"
    unfolding labels_reserved_def by (simp only: p x l u)
  moreover have "labels_unique s' = labels_unique s"
    unfolding labels_unique_def by (simp only: p x l)
  ultimately show ?thesis using c unfolding consistent_def by (simp only:)
qed

lemma consistentD:
  assumes "consistent H s"
  shows "flags_exclusive s" "terminal_exists s" "labels_hashed H s" "labels_reserved s"
    "labels_unique s"
  using assms unfolding consistent_def by simp_all

lemma joinBet_consistent:
  assumes c: "consistent H s" and j: "joinBet s env betId = Inr (s', effs)"
  shows "consistent H s'"
proof -
  from joinBet_InrD [OF j]
  have s': "s' = s\<lparr>bets := (bets s)(betId := (bets s betId)\<lparr>player2 := msg_sender env\<rparr>),
                    balance := balance s + unat (msg_value env)\<rparr>"
    by (elim conjE)
  show ?thesis using c by (rule consistent_frame) (simp_all add: s')
qed

lemma resolveBet_summary:
  assumes "resolveBet s env betId = Inr (s', effs)"
  shows "player1 (bets s betId) \<noteq> 0 \<and> \<not> cancelled (bets s betId) \<and>
    \<not> resolved (bets s betId) \<and> usedSubdomains s' = usedSubdomains s \<and>
    (\<forall>i. player1 (bets s' i) = player1 (bets s i) \<and>
         cancelled (bets s' i) = cancelled (bets s i) \<and>
         ensLabel (bets s' i) = ensLabel (bets s i) \<and>
         ensSubdomain (bets s' i) = ensSubdomain (bets s i) \<and>
         resolved (bets s' i) = (i = betId \<or> resolved (bets s i)))"
  using resolveBet_InrD [OF assms] by clarsimp

lemma resolveBet_consistent:
  assumes c: "consistent H s" and r: "resolveBet s env betId = Inr (s', effs)"
  shows "consistent H s'"
proof -
  from resolveBet_summary [OF r]
  have pre: "player1 (bets s betId) \<noteq> 0" "\<not> cancelled (bets s betId)"
    and u: "usedSubdomains s' = usedSubdomains s"
    and f: "\<And>i. player1 (bets s' i) = player1 (bets s i)"
      "\<And>i. cancelled (bets s' i) = cancelled (bets s i)"
      "\<And>i. ensLabel (bets s' i) = ensLabel (bets s i)"
      "\<And>i. ensSubdomain (bets s' i) = ensSubdomain (bets s i)"
      "\<And>i. resolved (bets s' i) = (i = betId \<or> resolved (bets s i))"
    by simp_all
  have "flags_exclusive s'"
    using consistentD(1) [OF c] pre unfolding flags_exclusive_def f by blast
  moreover have "terminal_exists s'"
    using consistentD(2) [OF c] pre unfolding terminal_exists_def terminal_def f by blast
  moreover have "labels_hashed H s'"
    using consistentD(3) [OF c] unfolding labels_hashed_def f .
  moreover have "labels_reserved s'"
    using consistentD(4) [OF c] unfolding labels_reserved_def f u .
  moreover have "labels_unique s'"
    using consistentD(5) [OF c] unfolding labels_unique_def f .
  ultimately show ?thesis unfolding consistent_def by (intro conjI)
qed

lemma cancelBet_summary:
  assumes "cancelBet s env betId = Inr (s', effs)"
  shows "player1 (bets s betId) \<noteq> 0 \<and> \<not> cancelled (bets s betId) \<and>
    \<not> resolved (bets s betId) \<and>
    usedSubdomains s' = (usedSubdomains s)(ensLabel (bets s betId) := False) \<and>
    (\<forall>i. player1 (bets s' i) = player1 (bets s i) \<and>
         resolved (bets s' i) = resolved (bets s i) \<and>
         ensLabel (bets s' i) = ensLabel (bets s i) \<and>
         ensSubdomain (bets s' i) = ensSubdomain (bets s i) \<and>
         cancelled (bets s' i) = (i = betId \<or> cancelled (bets s i)))"
  using cancelBet_InrD [OF assms] by clarsimp

lemma cancelBet_consistent:
  assumes c: "consistent H s" and r: "cancelBet s env betId = Inr (s', effs)"
  shows "consistent H s'"
proof -
  from cancelBet_summary [OF r]
  have pre: "player1 (bets s betId) \<noteq> 0" "\<not> cancelled (bets s betId)"
      "\<not> resolved (bets s betId)"
    and u: "usedSubdomains s' = (usedSubdomains s)(ensLabel (bets s betId) := False)"
    and f: "\<And>i. player1 (bets s' i) = player1 (bets s i)"
      "\<And>i. resolved (bets s' i) = resolved (bets s i)"
      "\<And>i. ensLabel (bets s' i) = ensLabel (bets s i)"
      "\<And>i. ensSubdomain (bets s' i) = ensSubdomain (bets s i)"
      "\<And>i. cancelled (bets s' i) = (i = betId \<or> cancelled (bets s i))"
    by simp_all
  have "flags_exclusive s'"
    using consistentD(1) [OF c] pre unfolding flags_exclusive_def f by blast
  moreover have "terminal_exists s'"
    using consistentD(2) [OF c] pre unfolding terminal_exists_def terminal_def f by blast
  moreover have "labels_hashed H s'"
    using consistentD(3) [OF c] unfolding labels_hashed_def f .
  moreover have "labels_reserved s'"
    unfolding labels_reserved_def f u
  proof (intro allI impI)
    fix i assume a: "player1 (bets s i) \<noteq> 0 \<and> \<not> (i = betId \<or> cancelled (bets s i))"
    then have "usedSubdomains s (ensLabel (bets s i))"
      using consistentD(4) [OF c] unfolding labels_reserved_def by blast
    moreover have "ensLabel (bets s i) \<noteq> ensLabel (bets s betId)"
      using consistentD(5) [OF c] a pre unfolding labels_unique_def by blast
    ultimately show "((usedSubdomains s)(ensLabel (bets s betId) := False))
                       (ensLabel (bets s i))"
      by simp
  qed
  moreover have "labels_unique s'"
    using consistentD(5) [OF c] unfolding labels_unique_def f by blast
  ultimately show ?thesis unfolding consistent_def by (intro conjI)
qed

lemma createBet_summary:
  assumes "createBet H s env feed targetUsd duration joinDuration sub = Inr (betId, s', effs)"
  shows "player1 (bets s betId) = 0 \<and> 0 < length sub \<and> length sub \<le> 63 \<and>
    \<not> usedSubdomains s (keccak_label H sub) \<and>
    usedSubdomains s' = (usedSubdomains s)(keccak_label H sub := True) \<and>
    player1 (bets s' betId) = msg_sender env \<and> \<not> resolved (bets s' betId) \<and>
    \<not> cancelled (bets s' betId) \<and> ensLabel (bets s' betId) = keccak_label H sub \<and>
    ensSubdomain (bets s' betId) = sub \<and>
    (\<forall>i. i \<noteq> betId \<longrightarrow> bets s' i = bets s i)"
  using createBet_InrD [OF assms] by clarsimp

lemma createBet_consistent:
  assumes c: "consistent H s"
    and r: "createBet H s env feed targetUsd duration joinDuration sub = Inr (betId, s', effs)"
  shows "consistent H s'"
proof -
  from createBet_summary [OF r]
  have pre: "player1 (bets s betId) = 0" "0 < length sub" "length sub \<le> 63"
      "\<not> usedSubdomains s (keccak_label H sub)"
    and u: "usedSubdomains s' = (usedSubdomains s)(keccak_label H sub := True)"
    and n: "\<not> resolved (bets s' betId)" "\<not> cancelled (bets s' betId)"
      "ensLabel (bets s' betId) = keccak_label H sub" "ensSubdomain (bets s' betId) = sub"
    and o: "\<And>i. i \<noteq> betId \<Longrightarrow> bets s' i = bets s i"
    by simp_all
  have "flags_exclusive s'"
    unfolding flags_exclusive_def
  proof
    fix i show "\<not> (resolved (bets s' i) \<and> cancelled (bets s' i))"
      using consistentD(1) [OF c] n o [of i] unfolding flags_exclusive_def
      by (cases "i = betId") auto
  qed
  moreover have "terminal_exists s'"
    unfolding terminal_exists_def
  proof (intro allI impI)
    fix i assume "terminal (bets s' i)"
    then show "player1 (bets s' i) \<noteq> 0"
      using consistentD(2) [OF c] n o [of i] unfolding terminal_exists_def
      by (cases "i = betId") (auto simp add: terminal_def)
  qed
  moreover have "labels_hashed H s'"
    unfolding labels_hashed_def
  proof (intro allI impI)
    fix i assume "player1 (bets s' i) \<noteq> 0"
    then show "ensLabel (bets s' i) = keccak_label H (ensSubdomain (bets s' i)) \<and>
       0 < length (ensSubdomain (bets s' i)) \<and> length (ensSubdomain (bets s' i)) \<le> 63"
      using consistentD(3) [OF c] n pre o [of i] unfolding labels_hashed_def
      by (cases "i = betId") auto
  qed
  moreover have "labels_reserved s'"
    unfolding labels_reserved_def
  proof (intro allI impI)
    fix i assume "player1 (bets s' i) \<noteq> 0 \<and> \<not> cancelled (bets s' i)"
    then show "usedSubdomains s' (ensLabel (bets s' i))"
      using consistentD(4) [OF c] n o [of i] unfolding labels_reserved_def u
      by (cases "i = betId") auto
  qed
  moreover have "labels_unique s'"
    unfolding labels_unique_def
  proof (intro allI impI)
    fix i j
    assume a: "player1 (bets s' i) \<noteq> 0 \<and> player1 (bets s' j) \<noteq> 0 \<and>
      \<not> cancelled (bets s' i) \<and> \<not> cancelled (bets s' j) \<and>
      ensLabel (bets s' i) = ensLabel (bets s' j)"
    have fresh: "ensLabel (bets s k) \<noteq> keccak_label H sub"
      if "player1 (bets s k) \<noteq> 0" "\<not> cancelled (bets s k)" for k
      using consistentD(4) [OF c] that pre(4) unfolding labels_reserved_def by metis
    show "i = j"
    proof (cases "i = betId")
      case True
      show ?thesis
      proof (cases "j = betId")
        case True
        with \<open>i = betId\<close> show ?thesis by simp
      next
        case False
        with a True n o [of j] fresh [of j] show ?thesis by simp
      qed
    next
      case False
      show ?thesis
      proof (cases "j = betId")
        case True
        with a False n o [of i] fresh [of i] show ?thesis by simp
      next
        case jf: False
        with a False o [of i] o [of j] consistentD(5) [OF c] show ?thesis
          unfolding labels_unique_def by auto
      qed
    qed
  qed
  ultimately show ?thesis unfolding consistent_def by (intro conjI)
qed

lemma exec_consistent:
  assumes c: "consistent H s" and e: "exec H s env call = Inr (s', effs)"
  shows "consistent H s'"
proof (cases call)
  case (CreateBet feed targetUsd duration joinDuration sub)
  with e obtain betId where
    "createBet H s env feed targetUsd duration joinDuration sub = Inr (betId, s', effs)"
    by (auto simp add: exec_def and_then_eq_Inr)
  with c show ?thesis by (rule createBet_consistent)
next
  case (JoinBet betId)
  with e have "joinBet s env betId = Inr (s', effs)" by (simp add: exec_def)
  with c show ?thesis by (rule joinBet_consistent)
next
  case (ResolveBet betId)
  with e have "resolveBet s env betId = Inr (s', effs)" by (simp add: exec_def)
  with c show ?thesis by (rule resolveBet_consistent)
next
  case (CancelBet betId)
  with e have "cancelBet s env betId = Inr (s', effs)" by (simp add: exec_def)
  with c show ?thesis by (rule cancelBet_consistent)
next
  case (ConfigureENS wrapper domainNode resolver domainName)
  with e have "bets s' = bets s \<and> usedSubdomains s' = usedSubdomains s"
    by (auto simp add: exec_def configureENS_def split: if_splits)
  then show ?thesis using c by (intro consistent_frame [OF c]) simp_all
next
  case EmergencyWithdrawAll
  with e have "bets s' = bets s \<and> usedSubdomains s' = usedSubdomains s"
    by (auto simp add: exec_def emergencyWithdrawAll_def and_then_eq_Inr split: if_splits)
  then show ?thesis using c by (intro consistent_frame [OF c]) simp_all
next
  case (EmergencyUpdatePyth newPythAddress)
  with e have "bets s' = bets s \<and> usedSubdomains s' = usedSubdomains s"
    by (auto simp add: exec_def emergencyUpdatePyth_def split: if_splits)
  then show ?thesis using c by (intro consistent_frame [OF c]) simp_all
next
  case (TransferOwnership newOwner)
  with e have "bets s' = bets s \<and> usedSubdomains s' = usedSubdomains s"
    by (auto simp add: exec_def transferOwnership_def split: if_splits)
  then show ?thesis using c by (intro consistent_frame [OF c]) simp_all
next
  case RenounceOwnership
  with e have "bets s' = bets s \<and> usedSubdomains s' = usedSubdomains s"
    by (auto simp add: exec_def renounceOwnership_def split: if_splits)
  then show ?thesis using c by (intro consistent_frame [OF c]) simp_all
qed

lemma transact_consistent:
  assumes "consistent H s"
  shows "consistent H (transact H s env call)"
proof (cases "exec H s env call")
  case (Inl e)
  with assms show ?thesis by (simp add: transact_def)
next
  case (Inr r)
  obtain s' effs where r: "r = (s', effs)" by (cases r)
  from exec_consistent [OF assms Inr [unfolded r]] show ?thesis
    by (simp add: transact_def Inr r)
qed

lemma reachable_consistent:
  assumes "reachable H s"
  shows "consistent H s"
  using assms
proof induction
  case (deployed deployer pythAddress s)
  then show ?case by (rule constructor_consistent)
next
  case (transacted s env c)
  then show ?case by (simp add: transact_consistent)
qed

lemma createBet_reserved_fails:
  assumes "usedSubdomains s (keccak_label H sub)"
  shows "\<exists>e. createBet H s env feed targetUsd duration joinDuration sub = Inl e"
proof (cases "createBet H s env feed targetUsd duration joinDuration sub")
  case (Inl e)
  then show ?thesis by blast
next
  case (Inr r)
  obtain betId s' effs where "r = (betId, s', effs)" by (cases r)
  with Inr createBet_summary [of H s env feed targetUsd duration joinDuration sub betId s' effs]
    assms show ?thesis by simp
qed


section \<open>A terminal bet is never written again\<close>

lemma exec_keeps_terminal:
  assumes t: "terminal (bets s i)" and p: "player1 (bets s i) \<noteq> 0"
    and e: "exec H s env call = Inr (s', effs)"
  shows "bets s' i = bets s i"
proof (cases call)
  case (CreateBet feed targetUsd duration joinDuration sub)
  with e obtain betId where
    cr: "createBet H s env feed targetUsd duration joinDuration sub = Inr (betId, s', effs)"
    by (auto simp add: exec_def and_then_eq_Inr)
  from createBet_summary [OF cr] p show ?thesis by auto
next
  case (JoinBet betId)
  with e have "joinBet s env betId = Inr (s', effs)" by (simp add: exec_def)
  from joinBet_InrD [OF this] t show ?thesis by (auto simp add: terminal_def)
next
  case (ResolveBet betId)
  with e have "resolveBet s env betId = Inr (s', effs)" by (simp add: exec_def)
  from resolveBet_InrD [OF this] t show ?thesis by (auto simp add: terminal_def)
next
  case (CancelBet betId)
  with e have "cancelBet s env betId = Inr (s', effs)" by (simp add: exec_def)
  from cancelBet_InrD [OF this] t show ?thesis by (auto simp add: terminal_def)
next
  case (ConfigureENS wrapper domainNode resolver domainName)
  with e show ?thesis by (auto simp add: exec_def configureENS_def split: if_splits)
next
  case EmergencyWithdrawAll
  with e show ?thesis
    by (auto simp add: exec_def emergencyWithdrawAll_def and_then_eq_Inr split: if_splits)
next
  case (EmergencyUpdatePyth newPythAddress)
  with e show ?thesis by (auto simp add: exec_def emergencyUpdatePyth_def split: if_splits)
next
  case (TransferOwnership newOwner)
  with e show ?thesis by (auto simp add: exec_def transferOwnership_def split: if_splits)
next
  case RenounceOwnership
  with e show ?thesis by (auto simp add: exec_def renounceOwnership_def split: if_splits)
qed

lemma transact_keeps_terminal:
  assumes "terminal (bets s i)" and "player1 (bets s i) \<noteq> 0"
  shows "bets (transact H s env call) i = bets s i"
proof (cases "exec H s env call")
  case (Inl e)
  then show ?thesis by (simp add: transact_def)
next
  case (Inr r)
  obtain s' effs where r: "r = (s', effs)" by (cases r)
  from exec_keeps_terminal [OF assms Inr [unfolded r]] show ?thesis
    by (simp add: transact_def Inr r)
qed

lemma run_keeps_terminal:
  assumes "terminal (bets s i)" and "player1 (bets s i) \<noteq> 0"
  shows "bets (run H s ecs) i = bets s i"
  using assms
proof (induction ecs arbitrary: s)
  case Nil
  then show ?case by simp
next
  case (Cons ec ecs)
  have k: "bets (transact H s (fst ec) (snd ec)) i = bets s i"
    using Cons.prems by (rule transact_keeps_terminal)
  then have "bets (run H (transact H s (fst ec) (snd ec)) ecs) i =
             bets (transact H s (fst ec) (snd ec)) i"
    using Cons.prems by (intro Cons.IH) simp_all
  with k show ?case by simp
qed

lemma terminal_calls_fail:
  assumes "terminal (bets s i)"
  shows "(\<exists>e. joinBet s env i = Inl e) \<and> (\<exists>e. resolveBet s env i = Inl e) \<and>
         (\<exists>e. cancelBet s env i = Inl e)"
  using assms
  by (auto simp add: terminal_def joinBet_def resolveBet_def cancelBet_def Let_def)

lemma reachable_run:
  assumes "reachable H s"
  shows "reachable H (run H s ecs)"
  using assms
proof (induction ecs arbitrary: s)
  case Nil
  then show ?case by simp
next
  case (Cons ec ecs)
  from Cons.prems have "reachable H (transact H s (fst ec) (snd ec))"
    by (rule reachable.transacted)
  then show ?case by (simp add: Cons.IH)
qed

lemma resolved_label_reserved:
  assumes "reachable H t" and "resolved (bets t i)"
  shows "usedSubdomains t (keccak_label H (ensSubdomain (bets t i)))"
proof -
  from reachable_consistent [OF assms(1)] have c: "consistent H t" .
  from assms(2) have p: "player1 (bets t i) \<noteq> 0"
    using consistentD(2) [OF c] unfolding terminal_exists_def terminal_def by blast
  from assms(2) have nc: "\<not> cancelled (bets t i)"
    using consistentD(1) [OF c] unfolding flags_exclusive_def by blast
  from consistentD(3) [OF c] p
  have "ensLabel (bets t i) = keccak_label H (ensSubdomain (bets t i))"
    unfolding labels_hashed_def by blast
  moreover from consistentD(4) [OF c] p nc have "usedSubdomains t (ensLabel (bets t i))"
    unfolding labels_reserved_def by blast
  ultimately show ?thesis by simp
qed

lemma resolved_stays_reserved:
  assumes r: "reachable H s" and ok: "resolveBet s env betId = Inr (s', effs)"
  shows "usedSubdomains (run H s' ecs) (keccak_label H (ensSubdomain (bets s betId)))"
proof -
  have "transact H s env (ResolveBet betId) = s'" by (simp add: transact_def exec_def ok)
  with r have r': "reachable H s'" using reachable.transacted [of H s env "ResolveBet betId"]
    by simp
  from resolveBet_summary [OF ok]
  have res: "resolved (bets s' betId)"
    and sub: "ensSubdomain (bets s' betId) = ensSubdomain (bets s betId)"
    by simp_all
  have p: "player1 (bets s' betId) \<noteq> 0"
    using consistentD(2) [OF reachable_consistent [OF r']] res
    unfolding terminal_exists_def terminal_def by blast
  have keep: "bets (run H s' ecs) betId = bets s' betId"
    using res p by (intro run_keeps_terminal) (simp_all add: terminal_def)
  have "reachable H (run H s' ecs)" using r' by (rule reachable_run)
  moreover have "resolved (bets (run H s' ecs) betId)" by (simp add: keep res)
  ultimately have "usedSubdomains (run H s' ecs)
      (keccak_label H (ensSubdomain (bets (run H s' ecs) betId)))"
    by (rule resolved_label_reserved)
  then show ?thesis by (simp add: keep sub)
qed


section \<open>Evaluating the scenarios\<close>

lemmas demo_defs = demo_matched_def demo_bet_def demo_env_def demo_price_def alice_def bob_def
  carol_def no_bet_def demo_deployed_def demo_legacy_matched_def demo_legacy_bet_def demo_legacy_none_def
  demo_open_def demo_hashing_def

lemmas eval_defs = and_then_def pyth_call_def sendValue_def try_setSubnodeRecord_def
  checked_mul_def checked_add_def checked_sub_def MAX_PRICE_AGE_def Let_def

lemma demo_resolve_tie:
  "resolveBet demo_matched (demo_env carol 2 1300 5000000000000) 1000 =
     Inr (demo_matched\<lparr>bets := (bets demo_matched)(1000 :=
                            demo_bet\<lparr>resolved := True, winner := alice\<rparr>),
            balance := 0\<rparr>,
          [PythFeePaid 1, Sent alice 2000000000, Sent carol 1,
           SetSubnodeRecord 78 ''alpha'' alice 79 True,
           Emit (BetResolved 1000 alice bob 5000000000000 2000000000 ''alpha'')])"
  by (simp add: resolveBet_def demo_defs eval_defs)

lemma demo_resolve_below:
  "resolveBet demo_matched (demo_env carol 2 1300 4999999999999) 1000 =
     Inr (demo_matched\<lparr>bets := (bets demo_matched)(1000 :=
                            demo_bet\<lparr>resolved := True, winner := bob\<rparr>),
            balance := 0\<rparr>,
          [PythFeePaid 1, Sent bob 2000000000, Sent carol 1,
           SetSubnodeRecord 78 ''alpha'' bob 79 True,
           Emit (BetResolved 1000 bob alice 4999999999999 2000000000 ''alpha'')])"
  by (simp add: resolveBet_def demo_defs eval_defs)

lemma demo_legacy_resolve_tie:
  "legacy_resolveBet demo_legacy_matched (demo_env carol 2 1300 5000000000000) 1000 =
     Inr (demo_legacy_matched\<lparr>bets := (bets demo_legacy_matched)(1000 :=
                            demo_legacy_bet\<lparr>resolved := True, winner := alice\<rparr>),
            balance := 0\<rparr>,
          [PythFeePaid 1, Sent alice 2000000001, Sent carol 1,
           Emit (LegacyBetResolved 1000 alice bob 5000000000000 2000000000)])"
  by (simp add: legacy_resolveBet_def demo_defs eval_defs)

lemma demo_cancel:
  "cancelBet demo_open (demo_env alice 0 1061 5000000000000) 1000 =
     Inr (demo_open\<lparr>bets := (bets demo_open)(1000 := demo_bet\<lparr>player2 := 0, cancelled := True\<rparr>),
            balance := 0, usedSubdomains := (usedSubdomains demo_open)(5 := False)\<rparr>,
          [Sent alice 1000000000, Emit (BetCancelled 1000 alice 1000000000)])"
  by (simp add: cancelBet_def demo_defs eval_defs)

lemma demo_deploy: "constructor carol 99 = Inr demo_deployed"
  by (simp add: constructor_def demo_deployed_def)

lemma demo_convert: "convertToPythPrice 50000 (- 8) = Inr 5000000000000"
  by (simp add: convertToPythPrice_def and_then_def checked_neg32_def checked_pow10_def
      checked_mul_def toInt256_def toInt64_def)

lemmas const_defs = MIN_BET_def MIN_DURATION_def MAX_DURATION_def MIN_JOIN_DURATION_def
  MAX_JOIN_DURATION_def

lemma demo_create:
  "createBet demo_hashing demo_deployed (demo_env alice 1000000001 1000 4900000000000)
     1 50000 300 60 ''alpha'' =
   Inr (1000,
        demo_deployed\<lparr>bets := (bets demo_deployed)(1000 :=
             \<lparr> player1 = alice, player2 = 0, amount = 1000000000,
               targetPrice = 5000000000000, priceExponent = - 8, deadline = 1300,
               joinDeadline = 1060, startPrice = 4900000000000, pythUpdateFee = 1,
               resolved = False, cancelled = False, winner = 0, priceFeedId = 1,
               ensLabel = 5, ensSubdomain = ''alpha'' \<rparr>),
           balance := 1000000000,
           usedSubdomains := (usedSubdomains demo_deployed)(5 := True)\<rparr>,
        [PythFeePaid 1, Emit (BetCreated 1000 alice 5000000000000 1000000000 1300 1060 ''alpha'')])"
  by (simp add: createBet_def createBetWithENS_def demo_convert demo_defs
      eval_defs const_defs)

lemma demo_created_eq:
  "demo_created = demo_deployed\<lparr>bets := (bets demo_deployed)(1000 := demo_bet\<lparr>player2 := 0\<rparr>),
           balance := 1000000000,
           usedSubdomains := (usedSubdomains demo_deployed)(5 := True)\<rparr>"
  unfolding demo_created_def transact_def exec_def
  by (simp add: demo_create) (simp add: demo_bet_def alice_def bob_def demo_deployed_def)

lemma demo_joined_eq:
  "demo_joined = demo_deployed\<lparr>bets := (bets demo_deployed)(1000 := demo_bet),
           balance := 2000000000,
           usedSubdomains := (usedSubdomains demo_deployed)(5 := True)\<rparr>"
  unfolding demo_joined_def transact_def exec_def demo_created_eq
  by (simp add: joinBet_def demo_defs eval_defs)

lemma demo_resolved_eq:
  "demo_resolved = demo_deployed\<lparr>bets := (bets demo_deployed)(1000 :=
              demo_bet\<lparr>resolved := True, winner := alice\<rparr>),
           balance := 0,
           usedSubdomains := (usedSubdomains demo_deployed)(5 := True)\<rparr>"
  unfolding demo_resolved_def transact_def exec_def demo_joined_eq
  by (simp add: resolveBet_def demo_defs eval_defs)

lemma demo_cancelled_eq:
  "demo_cancelled = demo_deployed\<lparr>bets := (bets demo_deployed)(1000 :=
              demo_bet\<lparr>player2 := 0, cancelled := True\<rparr>),
           balance := 0,
           usedSubdomains := (usedSubdomains demo_deployed)(5 := False)\<rparr>"
  unfolding demo_cancelled_def transact_def exec_def demo_created_eq
  by (simp add: cancelBet_def demo_defs eval_defs)

lemma demo_reachable:
  "reachable demo_hashing demo_created" "reachable demo_hashing demo_joined"
  "reachable demo_hashing demo_resolved" "reachable demo_hashing demo_cancelled"
proof -
  have d: "reachable demo_hashing demo_deployed"
    using demo_deploy by (rule reachable.deployed)
  then show c: "reachable demo_hashing demo_created"
    unfolding demo_created_def by (rule reachable.transacted)
  then show j: "reachable demo_hashing demo_joined"
    unfolding demo_joined_def by (rule reachable.transacted)
  then show "reachable demo_hashing demo_resolved"
    unfolding demo_resolved_def by (rule reachable.transacted)
  from c show "reachable demo_hashing demo_cancelled"
    unfolding demo_cancelled_def by (rule reachable.transacted)
qed

lemma demo_matched_reached:
  "run demo_hashing demo_deployed
     [(demo_env carol 0 900 4900000000000, ConfigureENS 77 78 79 ''betflix.eth''),
      (demo_env alice 1000000001 1000 4900000000000, CreateBet 1 50000 300 60 ''alpha''),
      (demo_env bob 1000000000 1030 4950000000000, JoinBet 1000)] = demo_matched"
  by (simp add: transact_def exec_def configureENS_def createBet_def createBetWithENS_def
      joinBet_def demo_convert demo_defs eval_defs const_defs)

lemma demo_recreate_after_cancel:
  "createBet demo_hashing demo_cancelled (demo_env bob 1000000001 2000 4900000000000)
     1 50000 300 60 ''alpha'' =
   Inr (2000,
        demo_cancelled\<lparr>bets := (bets demo_cancelled)(2000 :=
             \<lparr> player1 = bob, player2 = 0, amount = 1000000000,
               targetPrice = 5000000000000, priceExponent = - 8, deadline = 2300,
               joinDeadline = 2060, startPrice = 4900000000000, pythUpdateFee = 1,
               resolved = False, cancelled = False, winner = 0, priceFeedId = 1,
               ensLabel = 5, ensSubdomain = ''alpha'' \<rparr>),
           balance := 1000000000,
           usedSubdomains := (usedSubdomains demo_cancelled)(5 := True)\<rparr>,
        [PythFeePaid 1, Emit (BetCreated 2000 bob 5000000000000 1000000000 2300 2060 ''alpha'')])"
  unfolding demo_cancelled_eq
  by (simp add: createBet_def createBetWithENS_def demo_convert demo_defs
      eval_defs const_defs)

lemma demo_recreate_after_resolve:
  "createBet demo_hashing demo_resolved (demo_env bob 1000000001 2000 4900000000000)
     1 50000 300 60 ''alpha'' = Inl ENSSubdomainTaken"
  unfolding demo_resolved_eq
  by (simp add: createBet_def createBetWithENS_def demo_convert demo_defs
      eval_defs const_defs)

lemma demo_resolve_trophy_fails:
  "resolveBet demo_matched demo_trophy_fails 1000 =
     Inr (demo_matched\<lparr>bets := (bets demo_matched)(1000 :=
                            demo_bet\<lparr>resolved := True, winner := alice\<rparr>),
            balance := 0\<rparr>,
          [PythFeePaid 1, Sent alice 2000000000, Sent carol 1,
           SetSubnodeRecord 78 ''alpha'' alice 79 False,
           Emit (BetResolved 1000 alice bob 5000000000000 2000000000 ''alpha'')])"
  by (simp add: resolveBet_def demo_trophy_fails_def demo_defs eval_defs)


section \<open>C1: winner determination\<close>

lemma resolveBet_winner:
  assumes "resolveBet s env betId = Inr (s', effs)"
  shows "\<exists>fp. pyth_getPriceNoOlderThan env (priceFeedId (bets s betId)) MAX_PRICE_AGE = Some fp \<and>
         player2 (bets s betId) \<noteq> 0 \<and> deadline (bets s betId) \<le> block_timestamp env \<and>
         0 < sint (price fp) \<and> expo fp = priceExponent (bets s betId) \<and>
         resolved (bets s' betId) \<and>
         winner (bets s' betId) =
           (if sint (price fp) \<ge> sint (targetPrice (bets s betId))
            then player1 (bets s betId) else player2 (bets s betId))"
  using resolveBet_InrD [OF assms] by auto

lemma legacy_resolveBet_winner:
  assumes "legacy_resolveBet s env betId = Inr (s', effs)"
  shows "\<exists>fp. pyth_getPriceNoOlderThan env (priceFeedId (bets s betId)) MAX_PRICE_AGE = Some fp \<and>
         player2 (bets s betId) \<noteq> 0 \<and> deadline (bets s betId) \<le> block_timestamp env \<and>
         0 < sint (price fp) \<and> expo fp = priceExponent (bets s betId) \<and>
         resolved (bets s' betId) \<and>
         winner (bets s' betId) =
           (if sint (price fp) \<ge> sint (targetPrice (bets s betId))
            then player1 (bets s betId) else player2 (bets s betId))"
  using legacy_resolveBet_InrD [OF assms] by auto

text \<open>
  Claim C1.  Whenever \<^verbatim>\<open>resolveBet\<close> succeeds, in either variant of the contract, the bet
  was matched, the deadline had passed, the oracle returned a positive price with the
  stored exponent, and the stored winner is the creator (\<open>player1\<close>) if the final price is
  at or above the target and the joiner (\<open>player2\<close>) otherwise; a tie goes to the creator.
  Of two resolutions of the same bet, if the creator wins at the lower final price, the
  creator wins at the higher one: along increasing prices the winner changes only once,
  from joiner to creator, at the target.
\<close>

theorem winner_determination:
  "(resolveBet s env betId = Inr (s', effs) \<longrightarrow>
      (\<exists>fp. pyth_getPriceNoOlderThan env (priceFeedId (bets s betId)) MAX_PRICE_AGE = Some fp \<and>
         player2 (bets s betId) \<noteq> 0 \<and> deadline (bets s betId) \<le> block_timestamp env \<and>
         0 < sint (price fp) \<and> expo fp = priceExponent (bets s betId) \<and>
         resolved (bets s' betId) \<and>
         winner (bets s' betId) =
           (if sint (price fp) \<ge> sint (targetPrice (bets s betId))
            then player1 (bets s betId) else player2 (bets s betId)))) \<and>
   (legacy_resolveBet ls env betId = Inr (ls', leffs) \<longrightarrow>
      (\<exists>fp. pyth_getPriceNoOlderThan env (priceFeedId (bets ls betId)) MAX_PRICE_AGE = Some fp \<and>
         player2 (bets ls betId) \<noteq> 0 \<and> deadline (bets ls betId) \<le> block_timestamp env \<and>
         0 < sint (price fp) \<and> expo fp = priceExponent (bets ls betId) \<and>
         resolved (bets ls' betId) \<and>
         winner (bets ls' betId) =
           (if sint (price fp) \<ge> sint (targetPrice (bets ls betId))
            then player1 (bets ls betId) else player2 (bets ls betId)))) \<and>
   (resolveBet s env betId = Inr (s', effs) \<and> resolveBet s envb betId = Inr (sb, effsb) \<and>
    pyth_getPriceNoOlderThan env (priceFeedId (bets s betId)) MAX_PRICE_AGE = Some fpa \<and>
    pyth_getPriceNoOlderThan envb (priceFeedId (bets s betId)) MAX_PRICE_AGE = Some fpb \<and>
    sint (price fpa) \<le> sint (price fpb) \<and> winner (bets s' betId) = player1 (bets s betId) \<longrightarrow>
      winner (bets sb betId) = player1 (bets s betId)) \<and>
   (legacy_resolveBet ls env betId = Inr (ls', leffs) \<and>
    legacy_resolveBet ls envb betId = Inr (lsb, leffsb) \<and>
    pyth_getPriceNoOlderThan env (priceFeedId (bets ls betId)) MAX_PRICE_AGE = Some fpa \<and>
    pyth_getPriceNoOlderThan envb (priceFeedId (bets ls betId)) MAX_PRICE_AGE = Some fpb \<and>
    sint (price fpa) \<le> sint (price fpb) \<and> winner (bets ls' betId) = player1 (bets ls betId) \<longrightarrow>
      winner (bets lsb betId) = player1 (bets ls betId))"
proof (intro conjI impI)
  assume "resolveBet s env betId = Inr (s', effs)"
  then show "\<exists>fp. pyth_getPriceNoOlderThan env (priceFeedId (bets s betId)) MAX_PRICE_AGE = Some fp \<and>
         player2 (bets s betId) \<noteq> 0 \<and> deadline (bets s betId) \<le> block_timestamp env \<and>
         0 < sint (price fp) \<and> expo fp = priceExponent (bets s betId) \<and>
         resolved (bets s' betId) \<and>
         winner (bets s' betId) =
           (if sint (price fp) \<ge> sint (targetPrice (bets s betId))
            then player1 (bets s betId) else player2 (bets s betId))"
    by (rule resolveBet_winner)
next
  assume "legacy_resolveBet ls env betId = Inr (ls', leffs)"
  then show "\<exists>fp. pyth_getPriceNoOlderThan env (priceFeedId (bets ls betId)) MAX_PRICE_AGE = Some fp \<and>
         player2 (bets ls betId) \<noteq> 0 \<and> deadline (bets ls betId) \<le> block_timestamp env \<and>
         0 < sint (price fp) \<and> expo fp = priceExponent (bets ls betId) \<and>
         resolved (bets ls' betId) \<and>
         winner (bets ls' betId) =
           (if sint (price fp) \<ge> sint (targetPrice (bets ls betId))
            then player1 (bets ls betId) else player2 (bets ls betId))"
    by (rule legacy_resolveBet_winner)
next
  assume a: "resolveBet s env betId = Inr (s', effs) \<and> resolveBet s envb betId = Inr (sb, effsb) \<and>
    pyth_getPriceNoOlderThan env (priceFeedId (bets s betId)) MAX_PRICE_AGE = Some fpa \<and>
    pyth_getPriceNoOlderThan envb (priceFeedId (bets s betId)) MAX_PRICE_AGE = Some fpb \<and>
    sint (price fpa) \<le> sint (price fpb) \<and> winner (bets s' betId) = player1 (bets s betId)"
  from a resolveBet_winner [of s env betId s' effs]
  have w1: "winner (bets s' betId) =
           (if sint (price fpa) \<ge> sint (targetPrice (bets s betId))
            then player1 (bets s betId) else player2 (bets s betId))" by auto
  from a resolveBet_winner [of s envb betId sb effsb]
  have w2: "winner (bets sb betId) =
           (if sint (price fpb) \<ge> sint (targetPrice (bets s betId))
            then player1 (bets s betId) else player2 (bets s betId))" by auto
  from a w1 w2 show "winner (bets sb betId) = player1 (bets s betId)"
    by (auto split: if_splits)
next
  assume a: "legacy_resolveBet ls env betId = Inr (ls', leffs) \<and>
    legacy_resolveBet ls envb betId = Inr (lsb, leffsb) \<and>
    pyth_getPriceNoOlderThan env (priceFeedId (bets ls betId)) MAX_PRICE_AGE = Some fpa \<and>
    pyth_getPriceNoOlderThan envb (priceFeedId (bets ls betId)) MAX_PRICE_AGE = Some fpb \<and>
    sint (price fpa) \<le> sint (price fpb) \<and> winner (bets ls' betId) = player1 (bets ls betId)"
  from a legacy_resolveBet_winner [of ls env betId ls' leffs]
  have w1: "winner (bets ls' betId) =
           (if sint (price fpa) \<ge> sint (targetPrice (bets ls betId))
            then player1 (bets ls betId) else player2 (bets ls betId))" by auto
  from a legacy_resolveBet_winner [of ls envb betId lsb leffsb]
  have w2: "winner (bets lsb betId) =
           (if sint (price fpb) \<ge> sint (targetPrice (bets ls betId))
            then player1 (bets ls betId) else player2 (bets ls betId))" by auto
  from a w1 w2 show "winner (bets lsb betId) = player1 (bets ls betId)"
    by (auto split: if_splits)
qed

theorem winner_determination_witness:
  "resolveBet demo_matched (demo_env carol 2 1300 5000000000000) 1000 =
     Inr (demo_matched\<lparr>bets := (bets demo_matched)(1000 :=
                            demo_bet\<lparr>resolved := True, winner := alice\<rparr>),
            balance := 0\<rparr>,
          [PythFeePaid 1, Sent alice 2000000000, Sent carol 1,
           SetSubnodeRecord 78 ''alpha'' alice 79 True,
           Emit (BetResolved 1000 alice bob 5000000000000 2000000000 ''alpha'')]) \<and>
   resolveBet demo_matched (demo_env carol 2 1300 4999999999999) 1000 =
     Inr (demo_matched\<lparr>bets := (bets demo_matched)(1000 :=
                            demo_bet\<lparr>resolved := True, winner := bob\<rparr>),
            balance := 0\<rparr>,
          [PythFeePaid 1, Sent bob 2000000000, Sent carol 1,
           SetSubnodeRecord 78 ''alpha'' bob 79 True,
           Emit (BetResolved 1000 bob alice 4999999999999 2000000000 ''alpha'')]) \<and>
   player1 (bets demo_matched 1000) = alice \<and> player2 (bets demo_matched 1000) = bob \<and>
   targetPrice (bets demo_matched 1000) = 5000000000000 \<and>
   legacy_resolveBet demo_legacy_matched (demo_env carol 2 1300 5000000000000) 1000 =
     Inr (demo_legacy_matched\<lparr>bets := (bets demo_legacy_matched)(1000 :=
                            demo_legacy_bet\<lparr>resolved := True, winner := alice\<rparr>),
            balance := 0\<rparr>,
          [PythFeePaid 1, Sent alice 2000000001, Sent carol 1,
           Emit (LegacyBetResolved 1000 alice bob 5000000000000 2000000000)])"
  using winner_determination [where s = demo_matched
      and env = "demo_env carol 2 1300 5000000000000" and betId = 1000
      and ls = demo_legacy_matched
      and envb = "demo_env carol 2 1300 5000000000000"
      and fpa = "demo_price 5000000000000" and fpb = "demo_price 5000000000000"]
    demo_resolve_tie demo_resolve_below demo_legacy_resolve_tie
  by (simp add: demo_defs)

section \<open>C2: range of the price conversion\<close>




section \<open>C3: payout conservation\<close>

text \<open>
  Claim C3.  A successful \<^verbatim>\<open>resolveBet\<close> makes exactly two transfers: the pot to the
  winner and the quoted update fee, no more, to the caller, whatever the caller sent.
  Their total never exceeds twice the stake plus the creator's oracle fee plus the value
  the resolving caller sent.  This holds in both variants; in the earlier one the pot
  includes the creator's fee.  The fee forwarded to the oracle is a separate effect and is
  not counted among the payouts.
\<close>

theorem payout_conservation:
  "(resolveBet s env betId = Inr (s', effs) \<longrightarrow>
      (\<exists>pythFee. pyth_getUpdateFee env = Some pythFee \<and>
         transfers effs = [(winner (bets s' betId), 2 * amount (bets s betId)),
                           (msg_sender env, pythFee)] \<and>
         paid_out effs = 2 * unat (amount (bets s betId)) + unat pythFee \<and>
         paid_out effs \<le> 2 * unat (amount (bets s betId)) + unat (pythUpdateFee (bets s betId))
                           + unat (msg_value env))) \<and>
   (legacy_resolveBet ls env betId = Inr (ls', leffs) \<longrightarrow>
      (\<exists>pythFee. pyth_getUpdateFee env = Some pythFee \<and>
         transfers leffs = [(winner (bets ls' betId),
                             2 * amount (bets ls betId) + pythUpdateFee (bets ls betId)),
                            (msg_sender env, pythFee)] \<and>
         paid_out leffs = 2 * unat (amount (bets ls betId)) + unat (pythUpdateFee (bets ls betId))
                            + unat pythFee \<and>
         paid_out leffs \<le> 2 * unat (amount (bets ls betId))
                            + unat (pythUpdateFee (bets ls betId)) + unat (msg_value env)))"
proof (intro conjI impI)
  assume "resolveBet s env betId = Inr (s', effs)"
  from resolveBet_transfers [OF this] obtain pythFee where
    f: "pyth_getUpdateFee env = Some pythFee" "pythFee \<le> msg_value env"
    and t: "transfers effs = [(winner (bets s' betId), 2 * amount (bets s betId)),
                       (msg_sender env, pythFee)]"
    and u: "unat (2 * amount (bets s betId)) = 2 * unat (amount (bets s betId))"
    by (elim exE conjE)
  have "unat pythFee \<le> unat (msg_value env)" using f(2) by (simp add: word_le_nat_alt)
  then show "\<exists>pythFee. pyth_getUpdateFee env = Some pythFee \<and>
         transfers effs = [(winner (bets s' betId), 2 * amount (bets s betId)),
                           (msg_sender env, pythFee)] \<and>
         paid_out effs = 2 * unat (amount (bets s betId)) + unat pythFee \<and>
         paid_out effs \<le> 2 * unat (amount (bets s betId)) + unat (pythUpdateFee (bets s betId))
                           + unat (msg_value env)"
    using f t u by (simp add: paid_out_def)
next
  assume "legacy_resolveBet ls env betId = Inr (ls', leffs)"
  from legacy_resolveBet_transfers [OF this] obtain pythFee where
    f: "pyth_getUpdateFee env = Some pythFee" "pythFee \<le> msg_value env"
    and t: "transfers leffs = [(winner (bets ls' betId),
                        2 * amount (bets ls betId) + pythUpdateFee (bets ls betId)),
                       (msg_sender env, pythFee)]"
    and u: "unat (2 * amount (bets ls betId) + pythUpdateFee (bets ls betId)) =
       2 * unat (amount (bets ls betId)) + unat (pythUpdateFee (bets ls betId))"
    by (elim exE conjE)
  have "unat pythFee \<le> unat (msg_value env)" using f(2) by (simp add: word_le_nat_alt)
  then show "\<exists>pythFee. pyth_getUpdateFee env = Some pythFee \<and>
         transfers leffs = [(winner (bets ls' betId),
                             2 * amount (bets ls betId) + pythUpdateFee (bets ls betId)),
                            (msg_sender env, pythFee)] \<and>
         paid_out leffs = 2 * unat (amount (bets ls betId)) + unat (pythUpdateFee (bets ls betId))
                            + unat pythFee \<and>
         paid_out leffs \<le> 2 * unat (amount (bets ls betId))
                            + unat (pythUpdateFee (bets ls betId)) + unat (msg_value env)"
    using f t u by (simp add: paid_out_def)
qed

theorem payout_conservation_witness:
  "resolveBet demo_matched (demo_env carol 2 1300 5000000000000) 1000 =
     Inr (demo_matched\<lparr>bets := (bets demo_matched)(1000 :=
                            demo_bet\<lparr>resolved := True, winner := alice\<rparr>),
            balance := 0\<rparr>,
          [PythFeePaid 1, Sent alice 2000000000, Sent carol 1,
           SetSubnodeRecord 78 ''alpha'' alice 79 True,
           Emit (BetResolved 1000 alice bob 5000000000000 2000000000 ''alpha'')]) \<and>
   paid_out [PythFeePaid 1, Sent alice 2000000000, Sent carol 1,
           SetSubnodeRecord 78 ''alpha'' alice 79 True,
           Emit (BetResolved 1000 alice bob 5000000000000 2000000000 ''alpha'')] = 2000000001 \<and>
   msg_value (demo_env carol 2 1300 5000000000000) = 2 \<and>
   legacy_resolveBet demo_legacy_matched (demo_env carol 2 1300 5000000000000) 1000 =
     Inr (demo_legacy_matched\<lparr>bets := (bets demo_legacy_matched)(1000 :=
                            demo_legacy_bet\<lparr>resolved := True, winner := alice\<rparr>),
            balance := 0\<rparr>,
          [PythFeePaid 1, Sent alice 2000000001, Sent carol 1,
           Emit (LegacyBetResolved 1000 alice bob 5000000000000 2000000000)])"
  using payout_conservation [where s = demo_matched
      and env = "demo_env carol 2 1300 5000000000000" and betId = 1000
      and ls = demo_legacy_matched]
    demo_resolve_tie demo_legacy_resolve_tie
  by (simp add: demo_defs paid_out_def)

section \<open>C4: the oracle fee paid at creation\<close>

text \<open>
  Claim C4.  In the contract that the specification follows, a successful
  \<^verbatim>\<open>resolveBet\<close> transfers exactly twice the stake to the winner, and besides that only
  the fee quoted for this call back to the caller; a successful \<^verbatim>\<open>cancelBet\<close> transfers
  exactly the stake to the creator and nothing else.  The \<open>pythUpdateFee\<close> stored with
  the bet is in none of these amounts.
\<close>

theorem oracle_fee_not_returned:
  "(resolveBet s env betId = Inr (s', effs) \<longrightarrow>
      (\<exists>pythFee. pyth_getUpdateFee env = Some pythFee \<and>
         transfers effs = [(winner (bets s' betId), 2 * amount (bets s betId)),
                           (msg_sender env, pythFee)] \<and>
         unat (2 * amount (bets s betId)) = 2 * unat (amount (bets s betId)))) \<and>
   (cancelBet s env betId = Inr (s', effs) \<longrightarrow>
      transfers effs = [(player1 (bets s betId), amount (bets s betId))])"
  using resolveBet_transfers [of s env betId s' effs]
    cancelBet_transfers [of s env betId s' effs]
  by blast

theorem oracle_fee_not_returned_witness:
  "resolveBet demo_matched (demo_env carol 2 1300 5000000000000) 1000 =
     Inr (demo_matched\<lparr>bets := (bets demo_matched)(1000 :=
                            demo_bet\<lparr>resolved := True, winner := alice\<rparr>),
            balance := 0\<rparr>,
          [PythFeePaid 1, Sent alice 2000000000, Sent carol 1,
           SetSubnodeRecord 78 ''alpha'' alice 79 True,
           Emit (BetResolved 1000 alice bob 5000000000000 2000000000 ''alpha'')]) \<and>
   2 * amount (bets demo_matched 1000) = 2000000000 \<and>
   pythUpdateFee (bets demo_matched 1000) = 1 \<and>
   cancelBet demo_open (demo_env alice 0 1061 5000000000000) 1000 =
     Inr (demo_open\<lparr>bets := (bets demo_open)(1000 := demo_bet\<lparr>player2 := 0, cancelled := True\<rparr>),
            balance := 0, usedSubdomains := (usedSubdomains demo_open)(5 := False)\<rparr>,
          [Sent alice 1000000000, Emit (BetCancelled 1000 alice 1000000000)]) \<and>
   amount (bets demo_open 1000) = 1000000000 \<and>
   pythUpdateFee (bets demo_open 1000) = 1"
  using oracle_fee_not_returned [where s = demo_matched
      and env = "demo_env carol 2 1300 5000000000000" and betId = 1000]
    oracle_fee_not_returned [where s = demo_open
      and env = "demo_env alice 0 1061 5000000000000" and betId = 1000]
    demo_resolve_tie demo_cancel
  by (simp add: demo_defs)

section \<open>C5: terminal states are final\<close>

text \<open>
  Claim C5.  In every reachable state of the current contract no bet has both flags set.
  Once a bet has either flag set, \<^verbatim>\<open>joinBet\<close>, \<^verbatim>\<open>resolveBet\<close> and \<^verbatim>\<open>cancelBet\<close> on it fail in
  every context and the transaction leaves the storage as it was; and whatever
  transactions follow, of any kind, the record of the bet stays the same, so the bet is
  terminal in every later state too.
\<close>

theorem terminal_states_final:
  assumes "reachable H s"
  shows "\<not> (resolved (bets s betId) \<and> cancelled (bets s betId)) \<and>
    (terminal (bets s betId) \<longrightarrow>
       (\<forall>env. (\<exists>e. joinBet s env betId = Inl e) \<and> (\<exists>e. resolveBet s env betId = Inl e) \<and>
              (\<exists>e. cancelBet s env betId = Inl e) \<and>
              transact H s env (JoinBet betId) = s \<and> transact H s env (ResolveBet betId) = s \<and>
              transact H s env (CancelBet betId) = s) \<and>
       (\<forall>ecs. bets (run H s ecs) betId = bets s betId))"
proof -
  from reachable_consistent [OF assms] have c: "consistent H s" .
  have f: "\<not> (resolved (bets s betId) \<and> cancelled (bets s betId))"
    using consistentD(1) [OF c] unfolding flags_exclusive_def by blast
  have t: "(\<forall>env. (\<exists>e. joinBet s env betId = Inl e) \<and> (\<exists>e. resolveBet s env betId = Inl e) \<and>
              (\<exists>e. cancelBet s env betId = Inl e) \<and>
              transact H s env (JoinBet betId) = s \<and> transact H s env (ResolveBet betId) = s \<and>
              transact H s env (CancelBet betId) = s) \<and>
       (\<forall>ecs. bets (run H s ecs) betId = bets s betId)" if tm: "terminal (bets s betId)"
  proof -
    have p: "player1 (bets s betId) \<noteq> 0"
      using consistentD(2) [OF c] tm unfolding terminal_exists_def by blast
    have "(\<exists>e. joinBet s env betId = Inl e) \<and> (\<exists>e. resolveBet s env betId = Inl e) \<and>
              (\<exists>e. cancelBet s env betId = Inl e) \<and>
              transact H s env (JoinBet betId) = s \<and> transact H s env (ResolveBet betId) = s \<and>
              transact H s env (CancelBet betId) = s" for env
      using terminal_calls_fail [OF tm, of env]
      by (auto simp add: transact_def exec_def)
    moreover have "bets (run H s ecs) betId = bets s betId" for ecs
      using tm p by (rule run_keeps_terminal)
    ultimately show ?thesis by blast
  qed
  from f t show ?thesis by blast
qed

theorem terminal_states_final_witness:
  "reachable demo_hashing demo_resolved \<and> terminal (bets demo_resolved 1000) \<and>
   \<not> cancelled (bets demo_resolved 1000) \<and>
   joinBet demo_resolved (demo_env bob 1000000000 1301 5000000000000) 1000 =
     Inl BetAlreadyResolved \<and>
   resolveBet demo_resolved (demo_env carol 2 1301 5000000000000) 1000 =
     Inl BetAlreadyResolved \<and>
   cancelBet demo_resolved (demo_env alice 0 1301 5000000000000) 1000 =
     Inl BetAlreadyResolved \<and>
   bets (run demo_hashing demo_resolved
           [(demo_env carol 2 1301 5000000000000, ResolveBet 1000),
            (demo_env alice 0 1302 5000000000000, CancelBet 1000)]) 1000 =
     bets demo_resolved 1000 \<and>
   reachable demo_hashing demo_cancelled \<and> terminal (bets demo_cancelled 1000) \<and>
   \<not> resolved (bets demo_cancelled 1000) \<and>
   joinBet demo_cancelled (demo_env bob 1000000000 1062 5000000000000) 1000 =
     Inl BetAlreadyResolved"
  using terminal_states_final [OF demo_reachable(3), of 1000]
    terminal_states_final [OF demo_reachable(4), of 1000] demo_reachable(3,4)
  by (simp add: demo_resolved_eq demo_cancelled_eq terminal_def joinBet_def resolveBet_def
      cancelBet_def demo_defs eval_defs)

section \<open>C6: trophy transfer and payout transfer\<close>

text \<open>
  A revert of the NameWrapper is caught: take any successful \<^verbatim>\<open>resolveBet\<close>; whether the
  trophy call returns or reverts, the resolution succeeds with the same storage and the
  same transfers, and the bet is resolved.
\<close>

lemma trophy_revert_caught:
  assumes ok: "resolveBet s env betId = Inr (s', effs)"
    and outcome: "outcome = Returned \<or> outcome = Reverted"
  shows "\<exists>effs'.
    resolveBet s (env\<lparr>nameWrapper_setSubnodeRecord := outcome\<rparr>) betId = Inr (s', effs') \<and>
    transfers effs' = transfers effs \<and> resolved (bets s' betId)"
proof -
  from resolveBet_InrD [OF ok] obtain pythFee fp totalPot w where
    c: "player1 (bets s betId) \<noteq> 0" "\<not> cancelled (bets s betId)"
    "player2 (bets s betId) \<noteq> 0" "deadline (bets s betId) \<le> block_timestamp env"
    "\<not> resolved (bets s betId)" "pyth_getUpdateFee env = Some pythFee"
    "pythFee \<le> msg_value env" "pyth_updatePriceFeeds env"
    "pyth_getPriceNoOlderThan env (priceFeedId (bets s betId)) MAX_PRICE_AGE = Some fp"
    "0 < sint (price fp)" "expo fp = priceExponent (bets s betId)"
    "w = (if sint (targetPrice (bets s betId)) \<le> sint (price fp)
         then player1 (bets s betId) else player2 (bets s betId))"
    "checked_mul (amount (bets s betId)) 2 = Inr totalPot"
    "unat totalPot \<le> balance s + unat (msg_value env) - unat pythFee" "accepts env w"
    "unat pythFee \<le> balance s + unat (msg_value env) - unat pythFee - unat totalPot"
    "accepts env (msg_sender env)"
    and s': "s' = s\<lparr>bets := (bets s)(betId := (bets s betId)\<lparr>resolved := True, winner := w\<rparr>),
           balance := balance s + unat (msg_value env) - unat pythFee - unat totalPot
                        - unat pythFee\<rparr>"
    and effs: "effs = [PythFeePaid pythFee, Sent w totalPot, Sent (msg_sender env) pythFee] @
           (if nameWrapper s \<noteq> 0 \<and> ensDomainNode s \<noteq> 0
            then [SetSubnodeRecord (ensDomainNode s) (ensSubdomain (bets s betId)) w
                    (ensResolver s) (nameWrapper_setSubnodeRecord env = Returned)]
            else []) @
           [Emit (BetResolved betId w
                    (if sint (targetPrice (bets s betId)) \<le> sint (price fp)
                     then player2 (bets s betId) else player1 (bets s betId))
                    (price fp) totalPot (ensSubdomain (bets s betId)))]"
    by (elim exE conjE)
  have res: "resolved (bets s' betId)" unfolding s' by simp
  have tr: "transfers effs = [(w, totalPot), (msg_sender env, pythFee)]"
    unfolding effs by simp
  let ?env = "env\<lparr>nameWrapper_setSubnodeRecord := outcome\<rparr>"
  have "resolveBet s ?env betId =
    Inr (s\<lparr>bets := (bets s)(betId := (bets s betId)\<lparr>resolved := True, winner := w\<rparr>),
         balance := balance s + unat (msg_value ?env) - unat pythFee - unat totalPot
                      - unat pythFee\<rparr>,
        [PythFeePaid pythFee, Sent w totalPot, Sent (msg_sender ?env) pythFee] @
         (if nameWrapper s \<noteq> 0 \<and> ensDomainNode s \<noteq> 0
          then [SetSubnodeRecord (ensDomainNode s) (ensSubdomain (bets s betId)) w
                  (ensResolver s) (nameWrapper_setSubnodeRecord ?env = Returned)]
          else []) @
         [Emit (BetResolved betId w
                  (if sint (targetPrice (bets s betId)) \<le> sint (price fp)
                   then player2 (bets s betId) else player1 (bets s betId))
                  (price fp) totalPot (ensSubdomain (bets s betId)))])"
    by (rule resolveBet_InrI) (use c outcome in auto)
  with res show ?thesis unfolding s' tr by simp
qed

text \<open>
  A failure of the payout propagates: if the winner of a successful \<^verbatim>\<open>resolveBet\<close>
  rejects the transfer instead, the same call fails and the transaction leaves the
  storage unchanged.
\<close>

lemma payout_failure_propagates:
  assumes ok: "resolveBet s env betId = Inr (s', effs)"
  shows "isl (resolveBet s (env\<lparr>accepts := (accepts env)(winner (bets s' betId) := False)\<rparr>)
               betId) \<and>
    transact H s (env\<lparr>accepts := (accepts env)(winner (bets s' betId) := False)\<rparr>)
      (ResolveBet betId) = s"
proof -
  from resolveBet_InrD [OF ok] obtain pythFee fp totalPot w where
    c: "player1 (bets s betId) \<noteq> 0" "\<not> cancelled (bets s betId)"
    "player2 (bets s betId) \<noteq> 0" "deadline (bets s betId) \<le> block_timestamp env"
    "\<not> resolved (bets s betId)" "pyth_getUpdateFee env = Some pythFee"
    "pythFee \<le> msg_value env" "pyth_updatePriceFeeds env"
    "pyth_getPriceNoOlderThan env (priceFeedId (bets s betId)) MAX_PRICE_AGE = Some fp"
    "0 < sint (price fp)" "expo fp = priceExponent (bets s betId)"
    "w = (if sint (targetPrice (bets s betId)) \<le> sint (price fp)
         then player1 (bets s betId) else player2 (bets s betId))"
    "checked_mul (amount (bets s betId)) 2 = Inr totalPot"
    "unat totalPot \<le> balance s + unat (msg_value env) - unat pythFee"
    and s': "s' = s\<lparr>bets := (bets s)(betId := (bets s betId)\<lparr>resolved := True, winner := w\<rparr>),
           balance := balance s + unat (msg_value env) - unat pythFee - unat totalPot
                        - unat pythFee\<rparr>"
    by (elim exE conjE)
  have w: "winner (bets s' betId) = w" unfolding s' by simp
  let ?rej = "env\<lparr>accepts := (accepts env)(w := False)\<rparr>"
  have rej: "resolveBet s ?rej betId = Inl FailedCall"
    by (rule resolveBet_payout_rejected [where pythFee = pythFee and fp = fp and w = w
          and totalPot = totalPot]) (use c in simp_all)
  then have "transact H s ?rej (ResolveBet betId) = s"
    by (simp add: transact_def exec_def)
  with rej show ?thesis unfolding w by simp
qed

text \<open>
  A trophy call that is not answered is not caught: with ENS configured, no
  \<^verbatim>\<open>resolveBet\<close> succeeds while the call of \<^verbatim>\<open>setSubnodeRecord\<close> comes back without data
  that decodes to \<^verbatim>\<open>bytes32\<close>, and the transaction leaves the storage unchanged.
\<close>

lemma unanswered_trophy_call_propagates:
  assumes "nameWrapper s \<noteq> 0" "ensDomainNode s \<noteq> 0"
    and "nameWrapper_setSubnodeRecord env = Undecodable"
  shows "isl (resolveBet s env betId) \<and> transact H s env (ResolveBet betId) = s"
proof (cases "resolveBet s env betId")
  case (Inl e)
  then show ?thesis by (simp add: transact_def exec_def)
next
  case (Inr r)
  then have "resolveBet s env betId = Inr (fst r, snd r)" by simp
  from resolveBet_Inr_answered [OF this assms(1,2)] assms(3) show ?thesis by simp
qed

text \<open>
  Claim C6.  The second half of the claim holds (\<open>payout_failure_propagates\<close>), and so
  does the first for a NameWrapper that reverts (\<open>trophy_revert_caught\<close>).  It does not
  hold for any failure of the trophy call.  Carol deploys the contract and configures
  ENS, alice creates a bet with the label \<open>alpha\<close> and bob joins it.  Carol resolves at
  the deadline with a fresh price at the target.  When the configured NameWrapper
  address answers \<^verbatim>\<open>setSubnodeRecord\<close> without data that decodes to \<^verbatim>\<open>bytes32\<close>,
  \<^verbatim>\<open>resolveBet\<close> reverts: the bet stays unresolved and both stakes stay in the
  contract.  The same call pays alice and resolves the bet when the NameWrapper
  reverts.
\<close>

theorem unanswered_trophy_call_rolls_back:
  "constructor carol 99 = Inr demo_deployed \<and>
   run demo_hashing demo_deployed
     [(demo_env carol 0 900 4900000000000, ConfigureENS 77 78 79 ''betflix.eth''),
      (demo_env alice 1000000001 1000 4900000000000, CreateBet 1 50000 300 60 ''alpha''),
      (demo_env bob 1000000000 1030 4950000000000, JoinBet 1000)] = demo_matched \<and>
   reachable demo_hashing demo_matched \<and>
   resolveBet demo_matched demo_trophy_undecodable 1000 = Inl RevertWithoutData \<and>
   transact demo_hashing demo_matched demo_trophy_undecodable (ResolveBet 1000) =
     demo_matched \<and>
   \<not> resolved (bets demo_matched 1000) \<and> balance demo_matched = 2000000000 \<and>
   resolveBet demo_matched demo_trophy_fails 1000 =
     Inr (demo_matched\<lparr>bets := (bets demo_matched)(1000 :=
                            demo_bet\<lparr>resolved := True, winner := alice\<rparr>),
            balance := 0\<rparr>,
          [PythFeePaid 1, Sent alice 2000000000, Sent carol 1,
           SetSubnodeRecord 78 ''alpha'' alice 79 False,
           Emit (BetResolved 1000 alice bob 5000000000000 2000000000 ''alpha'')])"
proof -
  have r: "reachable demo_hashing demo_matched"
    using reachable_run [OF reachable.deployed [OF demo_deploy], of demo_hashing]
      demo_matched_reached by metis
  have u: "resolveBet demo_matched demo_trophy_undecodable 1000 = Inl RevertWithoutData"
    by (simp add: resolveBet_def demo_trophy_undecodable_def demo_defs eval_defs)
  then have t: "transact demo_hashing demo_matched demo_trophy_undecodable (ResolveBet 1000) =
      demo_matched"
    by (simp add: transact_def exec_def)
  have b: "\<not> resolved (bets demo_matched 1000) \<and> balance demo_matched = 2000000000"
    by (simp add: demo_defs)
  from demo_deploy demo_matched_reached r u t b demo_resolve_trophy_fails
  show ?thesis by simp
qed

section \<open>C7: round trip of the price conversion\<close>




section \<open>C8: release of the trophy label\<close>

text \<open>
  Claim C8.  Let the state be reachable.  After a successful \<^verbatim>\<open>cancelBet\<close> the label of the
  cancelled bet is available: a \<^verbatim>\<open>createBet\<close> with that label fails neither with
  \<open>ENSSubdomainTaken\<close> nor with \<open>InvalidENSSubdomain\<close>, and it succeeds whenever the same
  call would succeed with any label at all.  After a successful \<^verbatim>\<open>resolveBet\<close>, and after
  any transactions that follow it, the label of the resolved bet is not available and
  every \<^verbatim>\<open>createBet\<close> with that label fails.  In any state in which a bet is resolved, such
  a call fails with \<open>ENSSubdomainTaken\<close> whenever it would have succeeded had the label
  been free.
\<close>

theorem label_released_only_by_cancel:
  assumes "reachable H s"
  shows "(cancelBet s env betId = Inr (s', effs) \<longrightarrow>
      isSubdomainAvailable H s' (ensSubdomain (bets s betId)) \<and>
      (\<forall>env' feed targetUsd duration joinDuration.
         createBet H s' env' feed targetUsd duration joinDuration (ensSubdomain (bets s betId))
           \<noteq> Inl ENSSubdomainTaken \<and>
         createBet H s' env' feed targetUsd duration joinDuration (ensSubdomain (bets s betId))
           \<noteq> Inl InvalidENSSubdomain \<and>
         (\<forall>other r.
            createBet H s' env' feed targetUsd duration joinDuration other = Inr r \<longrightarrow>
            (\<exists>r'. createBet H s' env' feed targetUsd duration joinDuration
                     (ensSubdomain (bets s betId)) = Inr r')))) \<and>
    (resolveBet s env betId = Inr (s', effs) \<longrightarrow>
      (\<forall>ecs env' feed targetUsd duration joinDuration.
         \<not> isSubdomainAvailable H (run H s' ecs) (ensSubdomain (bets s betId)) \<and>
         (\<exists>e. createBet H (run H s' ecs) env' feed targetUsd duration joinDuration
                 (ensSubdomain (bets s betId)) = Inl e))) \<and>
    (resolved (bets s betId) \<longrightarrow>
      \<not> isSubdomainAvailable H s (ensSubdomain (bets s betId)) \<and>
      (\<forall>env' feed targetUsd duration joinDuration.
         (\<exists>e. createBet H s env' feed targetUsd duration joinDuration
                 (ensSubdomain (bets s betId)) = Inl e) \<and>
         (\<forall>r. createBet H (s\<lparr>usedSubdomains :=
                               (usedSubdomains s)(ensLabel (bets s betId) := False)\<rparr>)
                 env' feed targetUsd duration joinDuration (ensSubdomain (bets s betId)) = Inr r \<longrightarrow>
              createBet H s env' feed targetUsd duration joinDuration
                (ensSubdomain (bets s betId)) = Inl ENSSubdomainTaken)))"
proof (intro conjI impI)
  let ?L = "ensSubdomain (bets s betId)"
  from reachable_consistent [OF assms] have c: "consistent H s" .
  assume can: "cancelBet s env betId = Inr (s', effs)"
  from cancelBet_summary [OF can]
  have p: "player1 (bets s betId) \<noteq> 0"
    and u: "usedSubdomains s' = (usedSubdomains s)(ensLabel (bets s betId) := False)"
    by simp_all
  from consistentD(3) [OF c] p
  have l: "ensLabel (bets s betId) = keccak_label H ?L" "0 < length ?L" "length ?L \<le> 63"
    unfolding labels_hashed_def by blast+
  have free: "\<not> usedSubdomains s' (keccak_label H ?L)" by (simp add: u l(1))
  then show "isSubdomainAvailable H s' ?L" by (simp add: isSubdomainAvailable_def)
  show "\<forall>env' feed targetUsd duration joinDuration.
         createBet H s' env' feed targetUsd duration joinDuration ?L \<noteq> Inl ENSSubdomainTaken \<and>
         createBet H s' env' feed targetUsd duration joinDuration ?L \<noteq> Inl InvalidENSSubdomain \<and>
         (\<forall>other r.
            createBet H s' env' feed targetUsd duration joinDuration other = Inr r \<longrightarrow>
            (\<exists>r'. createBet H s' env' feed targetUsd duration joinDuration ?L = Inr r'))"
  proof (intro allI conjI impI)
    fix env' feed targetUsd duration joinDuration
    show "createBet H s' env' feed targetUsd duration joinDuration ?L \<noteq> Inl ENSSubdomainTaken"
      using createBet_label_errors [of H s' env' feed targetUsd duration joinDuration ?L
          ENSSubdomainTaken] free by blast
    show "createBet H s' env' feed targetUsd duration joinDuration ?L \<noteq> Inl InvalidENSSubdomain"
      using createBet_label_errors [of H s' env' feed targetUsd duration joinDuration ?L
          InvalidENSSubdomain] l(2,3) by auto
  next
    fix env' feed targetUsd duration joinDuration other r
    assume o: "createBet H s' env' feed targetUsd duration joinDuration other = Inr r"
    obtain betId' s'' effs' where r: "r = (betId', s'', effs')" by (cases r)
    from createBet_InrD [OF o [unfolded r]] obtain pythFee cp target dl jdl where
      "pyth_getUpdateFee env' = Some pythFee" "pythFee \<le> msg_value env'"
      "MIN_BET \<le> msg_value env' - pythFee"
      "MIN_DURATION \<le> duration" "duration \<le> MAX_DURATION"
      "MIN_JOIN_DURATION \<le> joinDuration" "joinDuration \<le> MAX_JOIN_DURATION"
      "joinDuration \<le> duration" "pyth_updatePriceFeeds env'"
      "pyth_getPriceNoOlderThan env' feed MAX_PRICE_AGE = Some cp" "0 < sint (price cp)"
      "convertToPythPrice targetUsd (expo cp) = Inr target"
      "betId' = keccak_betId H (msg_sender env') feed targetUsd (block_timestamp env')
              (block_prevrandao env')"
      "player1 (bets s' betId') = 0"
      "checked_add (block_timestamp env') duration = Inr dl"
      "checked_add (block_timestamp env') joinDuration = Inr jdl"
      by (elim exE conjE)
    then have "\<exists>s'' effs'. createBet H s' env' feed targetUsd duration joinDuration ?L =
           Inr (betId', s'', effs')"
      using l(2,3) free by (intro createBet_InrI)
    then show "\<exists>r'. createBet H s' env' feed targetUsd duration joinDuration ?L = Inr r'"
      by blast
  qed
next
  let ?L = "ensSubdomain (bets s betId)"
  assume ok: "resolveBet s env betId = Inr (s', effs)"
  show "\<forall>ecs env' feed targetUsd duration joinDuration.
         \<not> isSubdomainAvailable H (run H s' ecs) ?L \<and>
         (\<exists>e. createBet H (run H s' ecs) env' feed targetUsd duration joinDuration ?L = Inl e)"
  proof (intro allI conjI)
    fix ecs env' feed targetUsd duration joinDuration
    have used: "usedSubdomains (run H s' ecs) (keccak_label H ?L)"
      using assms ok by (rule resolved_stays_reserved)
    then show "\<not> isSubdomainAvailable H (run H s' ecs) ?L"
      by (simp add: isSubdomainAvailable_def)
    from used
    show "\<exists>e. createBet H (run H s' ecs) env' feed targetUsd duration joinDuration ?L = Inl e"
      by (rule createBet_reserved_fails)
  qed
next
  let ?L = "ensSubdomain (bets s betId)"
  from reachable_consistent [OF assms] have c: "consistent H s" .
  assume res: "resolved (bets s betId)"
  then have p: "player1 (bets s betId) \<noteq> 0"
    using consistentD(2) [OF c] unfolding terminal_exists_def terminal_def by blast
  from consistentD(3) [OF c] p
  have l: "ensLabel (bets s betId) = keccak_label H ?L" "0 < length ?L" "length ?L \<le> 63"
    unfolding labels_hashed_def by blast+
  have used: "usedSubdomains s (keccak_label H ?L)"
    using assms res by (rule resolved_label_reserved)
  then show "\<not> isSubdomainAvailable H s ?L" by (simp add: isSubdomainAvailable_def)
  show "\<forall>env' feed targetUsd duration joinDuration.
         (\<exists>e. createBet H s env' feed targetUsd duration joinDuration ?L = Inl e) \<and>
         (\<forall>r. createBet H (s\<lparr>usedSubdomains :=
                               (usedSubdomains s)(ensLabel (bets s betId) := False)\<rparr>)
                 env' feed targetUsd duration joinDuration ?L = Inr r \<longrightarrow>
              createBet H s env' feed targetUsd duration joinDuration ?L = Inl ENSSubdomainTaken)"
  proof (intro allI conjI impI)
    fix env' feed targetUsd duration joinDuration
    show "\<exists>e. createBet H s env' feed targetUsd duration joinDuration ?L = Inl e"
      using used by (rule createBet_reserved_fails)
  next
    fix env' feed targetUsd duration joinDuration r
    let ?s = "s\<lparr>usedSubdomains := (usedSubdomains s)(ensLabel (bets s betId) := False)\<rparr>"
    assume o: "createBet H ?s env' feed targetUsd duration joinDuration ?L = Inr r"
    obtain betId' s'' effs' where r: "r = (betId', s'', effs')" by (cases r)
    from createBet_InrD [OF o [unfolded r]] obtain pythFee cp target where
      "pyth_getUpdateFee env' = Some pythFee" "pythFee \<le> msg_value env'"
      "MIN_BET \<le> msg_value env' - pythFee"
      "MIN_DURATION \<le> duration" "duration \<le> MAX_DURATION"
      "MIN_JOIN_DURATION \<le> joinDuration" "joinDuration \<le> MAX_JOIN_DURATION"
      "joinDuration \<le> duration" "pyth_updatePriceFeeds env'"
      "pyth_getPriceNoOlderThan env' feed MAX_PRICE_AGE = Some cp" "0 < sint (price cp)"
      "convertToPythPrice targetUsd (expo cp) = Inr target"
      "betId' = keccak_betId H (msg_sender env') feed targetUsd (block_timestamp env')
              (block_prevrandao env')"
      "player1 (bets ?s betId') = 0"
      by (elim exE conjE)
    then show "createBet H s env' feed targetUsd duration joinDuration ?L = Inl ENSSubdomainTaken"
      using l(2,3) used by (intro createBet_label_taken) simp_all
  qed
qed

theorem label_released_only_by_cancel_witness:
  "reachable demo_hashing demo_created \<and>
   cancelBet demo_created (demo_env alice 0 1061 4950000000000) 1000 =
     Inr (demo_cancelled, [Sent alice 1000000000, Emit (BetCancelled 1000 alice 1000000000)]) \<and>
   ensSubdomain (bets demo_created 1000) = ''alpha'' \<and>
   isSubdomainAvailable demo_hashing demo_cancelled ''alpha'' \<and>
   createBet demo_hashing demo_cancelled (demo_env bob 1000000001 2000 4900000000000)
     1 50000 300 60 ''alpha'' =
   Inr (2000,
        demo_cancelled\<lparr>bets := (bets demo_cancelled)(2000 :=
             \<lparr> player1 = bob, player2 = 0, amount = 1000000000,
               targetPrice = 5000000000000, priceExponent = - 8, deadline = 2300,
               joinDeadline = 2060, startPrice = 4900000000000, pythUpdateFee = 1,
               resolved = False, cancelled = False, winner = 0, priceFeedId = 1,
               ensLabel = 5, ensSubdomain = ''alpha'' \<rparr>),
           balance := 1000000000,
           usedSubdomains := (usedSubdomains demo_cancelled)(5 := True)\<rparr>,
        [PythFeePaid 1, Emit (BetCreated 2000 bob 5000000000000 1000000000 2300 2060 ''alpha'')]) \<and>
   reachable demo_hashing demo_joined \<and>
   resolveBet demo_joined (demo_env carol 2 1300 5000000000000) 1000 =
     Inr (demo_resolved, [PythFeePaid 1, Sent alice 2000000000, Sent carol 1,
           Emit (BetResolved 1000 alice bob 5000000000000 2000000000 ''alpha'')]) \<and>
   ensSubdomain (bets demo_joined 1000) = ''alpha'' \<and>
   reachable demo_hashing demo_resolved \<and> resolved (bets demo_resolved 1000) \<and>
   ensSubdomain (bets demo_resolved 1000) = ''alpha'' \<and>
   \<not> isSubdomainAvailable demo_hashing demo_resolved ''alpha'' \<and>
   createBet demo_hashing demo_resolved (demo_env bob 1000000001 2000 4900000000000)
     1 50000 300 60 ''alpha'' = Inl ENSSubdomainTaken"
proof -
  have can: "cancelBet demo_created (demo_env alice 0 1061 4950000000000) 1000 =
     Inr (demo_cancelled, [Sent alice 1000000000, Emit (BetCancelled 1000 alice 1000000000)])"
    unfolding demo_cancelled_eq demo_created_eq
    by (simp add: cancelBet_def demo_defs eval_defs)
  have rsv: "resolveBet demo_joined (demo_env carol 2 1300 5000000000000) 1000 =
     Inr (demo_resolved, [PythFeePaid 1, Sent alice 2000000000, Sent carol 1,
           Emit (BetResolved 1000 alice bob 5000000000000 2000000000 ''alpha'')])"
    unfolding demo_resolved_eq demo_joined_eq
    by (simp add: resolveBet_def demo_defs eval_defs)
  have a: "ensSubdomain (bets demo_created 1000) = ''alpha''"
    "ensSubdomain (bets demo_joined 1000) = ''alpha''"
    by (simp_all add: demo_created_eq demo_joined_eq demo_defs)
  have b: "resolved (bets demo_resolved 1000)" "ensSubdomain (bets demo_resolved 1000) = ''alpha''"
    by (simp_all add: demo_resolved_eq demo_defs)
  from label_released_only_by_cancel [OF demo_reachable(1), of _ 1000] can a
  have "isSubdomainAvailable demo_hashing demo_cancelled ''alpha''" by auto
  moreover from label_released_only_by_cancel [OF demo_reachable(3), of _ 1000] b
  have "\<not> isSubdomainAvailable demo_hashing demo_resolved ''alpha''" by auto
  ultimately show ?thesis
    using can rsv a b demo_reachable(1,2,3) demo_recreate_after_cancel
      demo_recreate_after_resolve
    by simp
qed

section \<open>C9: timing errors of resolution\<close>

text \<open>
  Claim C9, as amended.  For an existing bet that is not cancelled: if it is matched,
  \<^verbatim>\<open>resolveBet\<close> before the deadline fails with \<open>BetNotExpired\<close>, in both variants; if it
  is unmatched, \<^verbatim>\<open>resolveBet\<close> of the current contract fails with \<open>BetNotMatched\<close> at any
  time, before the deadline as well as after it.
\<close>

theorem resolve_timing_errors:
  "(player1 (bets s betId) \<noteq> 0 \<and> \<not> cancelled (bets s betId) \<and> player2 (bets s betId) \<noteq> 0 \<and>
      block_timestamp env < deadline (bets s betId) \<longrightarrow>
      resolveBet s env betId = Inl BetNotExpired) \<and>
   (player1 (bets s betId) \<noteq> 0 \<and> \<not> cancelled (bets s betId) \<and> player2 (bets s betId) = 0 \<longrightarrow>
      resolveBet s env betId = Inl BetNotMatched) \<and>
   (player1 (bets ls betId) \<noteq> 0 \<and> \<not> cancelled (bets ls betId) \<and>
      player2 (bets ls betId) \<noteq> 0 \<and> block_timestamp env < deadline (bets ls betId) \<longrightarrow>
      legacy_resolveBet ls env betId = Inl BetNotExpired)"
  by (simp add: resolveBet_def legacy_resolveBet_def Let_def)

text \<open>
  The claim as stated fails for an unmatched bet before its deadline: the matching check
  precedes the deadline check, so the error is \<open>BetNotMatched\<close>, not \<open>BetNotExpired\<close>.
\<close>

theorem unmatched_before_deadline:
  "player1 (bets demo_open 1000) = alice \<and> alice \<noteq> 0 \<and> \<not> cancelled (bets demo_open 1000) \<and>
   block_timestamp (demo_env carol 2 1200 5000000000000) < deadline (bets demo_open 1000) \<and>
   resolveBet demo_open (demo_env carol 2 1200 5000000000000) 1000 = Inl BetNotMatched \<and>
   resolveBet demo_open (demo_env carol 2 1200 5000000000000) 1000 \<noteq> Inl BetNotExpired"
  by (simp add: resolveBet_def demo_defs eval_defs)

theorem resolve_timing_errors_witness:
  "player1 (bets demo_matched 1000) \<noteq> 0 \<and> \<not> cancelled (bets demo_matched 1000) \<and>
   player2 (bets demo_matched 1000) \<noteq> 0 \<and>
   block_timestamp (demo_env carol 2 1299 5000000000000) < deadline (bets demo_matched 1000) \<and>
   resolveBet demo_matched (demo_env carol 2 1299 5000000000000) 1000 = Inl BetNotExpired \<and>
   player1 (bets demo_open 1000) \<noteq> 0 \<and> \<not> cancelled (bets demo_open 1000) \<and>
   player2 (bets demo_open 1000) = 0 \<and>
   resolveBet demo_open (demo_env carol 2 1300 5000000000000) 1000 = Inl BetNotMatched \<and>
   player1 (bets demo_legacy_matched 1000) \<noteq> 0 \<and> \<not> cancelled (bets demo_legacy_matched 1000) \<and>
   player2 (bets demo_legacy_matched 1000) \<noteq> 0 \<and>
   legacy_resolveBet demo_legacy_matched (demo_env carol 2 1299 5000000000000) 1000 =
     Inl BetNotExpired"
  using resolve_timing_errors [where s = demo_matched
      and env = "demo_env carol 2 1299 5000000000000" and betId = 1000
      and ls = demo_legacy_matched]
    resolve_timing_errors [where s = demo_open
      and env = "demo_env carol 2 1300 5000000000000" and betId = 1000
      and ls = demo_legacy_matched]
  by (simp add: demo_defs)

text \<open>The earlier variant reports an unmatched bet with the error of a double join.\<close>

lemma legacy_resolveBet_unmatched:
  "player1 (bets ls betId) \<noteq> 0 \<Longrightarrow> \<not> cancelled (bets ls betId) \<Longrightarrow>
   player2 (bets ls betId) = 0 \<Longrightarrow> legacy_resolveBet ls env betId = Inl BetAlreadyJoined"
  by (simp add: legacy_resolveBet_def Let_def)

section \<open>C10: the fee guard of creation\<close>

text \<open>
  Claim C10.  When the value sent with \<^verbatim>\<open>createBet\<close> is below the quoted update fee, the
  checked subtraction \<^verbatim>\<open>msg.value - pythFee\<close> panics, in both variants.  When the
  subtraction succeeds, adding the fee back gives the value sent, so the guard
  \<^verbatim>\<open>msg.value < betAmount + pythFee\<close> is false; no call of \<^verbatim>\<open>createBet\<close> ends with
  \<open>InsufficientPythFee\<close>.
\<close>

theorem createBet_fee_underflow:
  "(pyth_getUpdateFee env = Some fee \<and> msg_value env < fee \<longrightarrow>
      createBet H s env feed targetUsd duration joinDuration sub = Inl Panic_0x11 \<and>
      legacy_createBet K ls env feed target duration joinDuration = Inl Panic_0x11) \<and>
   (checked_sub (msg_value env) fee = Inr betAmount \<longrightarrow>
      (\<exists>required. checked_add betAmount fee = Inr required \<and> \<not> msg_value env < required)) \<and>
   createBet H s env feed targetUsd duration joinDuration sub \<noteq> Inl InsufficientPythFee \<and>
   legacy_createBet K ls env feed target duration joinDuration \<noteq> Inl InsufficientPythFee"
proof (intro conjI impI)
  assume "pyth_getUpdateFee env = Some fee \<and> msg_value env < fee"
  then have f: "pyth_getUpdateFee env = Some fee" and "\<not> fee \<le> msg_value env"
    by (simp_all add: not_le)
  then have sub: "checked_sub (msg_value env) fee = Inl Panic_0x11"
    by (simp add: checked_sub_def)
  show "createBet H s env feed targetUsd duration joinDuration sub = Inl Panic_0x11"
    by (simp add: createBet_def pyth_call_def f sub)
  show "legacy_createBet K ls env feed target duration joinDuration = Inl Panic_0x11"
    by (simp add: legacy_createBet_def pyth_call_def f sub)
next
  assume "checked_sub (msg_value env) fee = Inr betAmount"
  then have "checked_add betAmount fee = Inr (msg_value env)" by (rule checked_sub_add)
  then show "\<exists>required. checked_add betAmount fee = Inr required \<and> \<not> msg_value env < required"
    by simp
next
  show "createBet H s env feed targetUsd duration joinDuration sub \<noteq> Inl InsufficientPythFee"
    by (rule createBet_not_InsufficientPythFee)
next
  show "legacy_createBet K ls env feed target duration joinDuration \<noteq> Inl InsufficientPythFee"
    by (rule legacy_createBet_not_InsufficientPythFee)
qed

theorem createBet_fee_underflow_witness:
  "pyth_getUpdateFee (demo_env alice 0 1000 5000000000000) = Some 1 \<and>
   msg_value (demo_env alice 0 1000 5000000000000) < 1 \<and>
   createBet demo_hashing demo_matched (demo_env alice 0 1000 5000000000000) 1 50000 300 60
     ''beta'' = Inl Panic_0x11 \<and>
   legacy_createBet (\<lambda>sender feed target ts rnd. ts) demo_legacy_matched
     (demo_env alice 0 1000 5000000000000) 1 5000000000000 300 60 = Inl Panic_0x11 \<and>
   checked_sub (msg_value (demo_env alice 5 1000 5000000000000)) 1 = Inr 4 \<and>
   checked_add 4 1 = Inr (msg_value (demo_env alice 5 1000 5000000000000))"
  using createBet_fee_underflow [where env = "demo_env alice 0 1000 5000000000000"
      and fee = 1 and H = demo_hashing and s = demo_matched and feed = 1 and targetUsd = 50000
      and duration = 300 and joinDuration = 60 and sub = "''beta''"
      and K = "\<lambda>sender feed target ts rnd. ts" and ls = demo_legacy_matched
      and target = 5000000000000]
    createBet_fee_underflow [where env = "demo_env alice 5 1000 5000000000000"
      and fee = 1 and betAmount = 4]
  by (simp add: demo_defs checked_sub_def checked_add_def)

end
